theory Spec2Isabelle
  imports Complex_Main "HOL-Library.Word"
begin

section \<open>Inference-server client (package ollama)\<close>

subsection \<open>Wire types\<close>

text \<open>
  The structs of the package, field for field. \<open>time.Time\<close> is kept abstract (a string
  holding the timestamp); a Go slice is a list, \<open>nil\<close> being \<open>[]\<close>.
\<close>

record Client =
  baseURL :: string

record Model =
  Name :: string
  Size :: int
  Modified :: string

record ListModelsResponse =
  Models :: "Model list"

record PullRequest =
  pr_Name :: string
  pr_Stream :: bool

record PullProgress =
  Status :: string
  Digest :: string
  Total :: int
  Completed :: int

record DeleteRequest =
  dr_Name :: string

text \<open>
  A value of \<open>interface{}\<close> in the option map of a generate request either has a JSON
  encoding or makes \<open>json.Marshal\<close> fail (a channel, a function, a NaN).
\<close>

datatype iface = Encodable string | Unencodable

record GenerateRequest =
  gr_Model :: string
  gr_Prompt :: string
  gr_Stream :: bool
  gr_Options :: "(string \<times> iface) list"

record GenerateResponse =
  g_Model :: string
  g_Response :: string
  g_Done :: bool
  g_CreatedAt :: string

subsection \<open>Errors\<close>

text \<open>
  What \<open>json.Decoder.Decode\<close> can return: \<open>io.EOF\<close> at a clean end of the body, or
  any other error (malformed JSON, a value of the wrong shape, a failed read of the body).
\<close>

datatype json_error = EOF | Malformed string

text \<open>
  The errors the client returns. \<open>Unreachable\<close> is an error of \<open>http.NewRequestWithContext\<close>
  or of \<open>http.Client.Do\<close>, returned as it is; \<open>NonSuccessStatus op n\<close> is
  \<open>fmt.Errorf("<op> failed with status: %d", n)\<close>; \<open>DecodeError what e\<close> is
  \<open>fmt.Errorf("failed to decode <what>: %w", e)\<close>; \<open>MarshalError\<close> is an error of
  \<open>json.Marshal\<close>. The other packages add \<open>PathError p\<close> (\<open>os.Open\<close> of \<open>p\<close>
  failed), \<open>NumError s\<close> (\<open>strconv\<close> rejected \<open>s\<close>) and \<open>RequirementsNotMet m\<close>
  (the error of the requirements check, with its whole message \<open>m\<close>).
\<close>

datatype error =
    Unreachable string
  | NonSuccessStatus string int
  | DecodeError string json_error
  | MarshalError
  | PathError string
  | NumError string
  | RequirementsNotMet string

subsection \<open>HTTP\<close>

text \<open>
  The body of a request is the JSON encoding of one of the three request structs;
  the encoding is kept symbolic.
\<close>

datatype payload =
    JSON_PullRequest PullRequest
  | JSON_DeleteRequest DeleteRequest
  | JSON_GenerateRequest GenerateRequest

record Request =
  Method :: string
  URL :: string
  Header :: "(string \<times> string) list"
  ReqBody :: "payload option"

text \<open>
  The body of a response, as the JSON decoder sees it: the outcomes of the successive
  calls of \<open>Decode\<close> into a variable of type \<open>'a\<close>. \<open>Value v\<close> is a JSON text that
  decodes to \<open>v\<close>, \<open>Failure m\<close> is an error other than end of stream, and the end of
  the list is the clean end of the stream.
\<close>

datatype 'a decoded = Value 'a | Failure string

record 'a Response =
  StatusCode :: int
  Body :: "'a decoded list"

text \<open>
  The network: whether \<open>http.NewRequestWithContext\<close> accepts a URL, and what
  \<open>httpClient.Do\<close> answers to a request (an error also when the context is cancelled
  or the timeout of 300 seconds passes).
\<close>

record 'a net =
  ParseURL :: "string \<Rightarrow> bool"
  Do :: "Request \<Rightarrow> error + 'a Response"

fun Decode :: "'a decoded list \<Rightarrow> (json_error + 'a) \<times> 'a decoded list" where
  "Decode [] = (Inl EOF, [])"
| "Decode (Value v # rest) = (Inr v, rest)"
| "Decode (Failure m # rest) = (Inl (Malformed m), Failure m # rest)"

definition NewRequestWithContext ::
  "'a net \<Rightarrow> string \<Rightarrow> string \<Rightarrow> payload option \<Rightarrow> error + Request" where
  "NewRequestWithContext w m u b =
     (if ParseURL w u then Inr \<lparr>Method = m, URL = u, Header = [], ReqBody = b\<rparr>
      else Inl (Unreachable u))"

definition Header_Set :: "(string \<times> string) list \<Rightarrow> string \<Rightarrow> string \<Rightarrow> (string \<times> string) list" where
  "Header_Set h k v = (k, v) # filter (\<lambda>kv. fst kv \<noteq> k) h"

definition get :: "Client \<Rightarrow> 'a net \<Rightarrow> string \<Rightarrow> error + 'a Response" where
  "get c w path =
     (case NewRequestWithContext w ''GET'' (baseURL c @ path) None of
        Inl err \<Rightarrow> Inl err
      | Inr req \<Rightarrow> Do w req)"

definition post :: "Client \<Rightarrow> 'a net \<Rightarrow> string \<Rightarrow> payload \<Rightarrow> error + 'a Response" where
  "post c w path body =
     (case NewRequestWithContext w ''POST'' (baseURL c @ path) (Some body) of
        Inl err \<Rightarrow> Inl err
      | Inr req \<Rightarrow>
          Do w (req\<lparr>Header := Header_Set (Header req) ''Content-Type'' ''application/json''\<rparr>))"

definition delete :: "Client \<Rightarrow> 'a net \<Rightarrow> string \<Rightarrow> payload \<Rightarrow> error + 'a Response" where
  "delete c w path body =
     (case NewRequestWithContext w ''DELETE'' (baseURL c @ path) (Some body) of
        Inl err \<Rightarrow> Inl err
      | Inr req \<Rightarrow>
          Do w (req\<lparr>Header := Header_Set (Header req) ''Content-Type'' ''application/json''\<rparr>))"

subsection \<open>json.Marshal of the request structs\<close>

text \<open>
  Structs of strings and booleans always encode; the option map of a generate request
  encodes when each of its values does.
\<close>

definition Marshal_PullRequest :: "PullRequest \<Rightarrow> error + payload" where
  "Marshal_PullRequest r = Inr (JSON_PullRequest r)"

definition Marshal_DeleteRequest :: "DeleteRequest \<Rightarrow> error + payload" where
  "Marshal_DeleteRequest r = Inr (JSON_DeleteRequest r)"

definition Marshal_GenerateRequest :: "GenerateRequest \<Rightarrow> error + payload" where
  "Marshal_GenerateRequest r =
     (if Unencodable \<in> snd ` set (gr_Options r) then Inl MarshalError
      else Inr (JSON_GenerateRequest r))"

subsection \<open>Operations\<close>

definition ListModels :: "Client \<Rightarrow> ListModelsResponse net \<Rightarrow> error + Model list" where
  "ListModels c w =
     (case get c w ''/api/tags'' of
        Inl err \<Rightarrow> Inl err
      | Inr resp \<Rightarrow>
          (case fst (Decode (Body resp)) of
             Inl err \<Rightarrow> Inl (DecodeError ''response'' err)
           | Inr listResp \<Rightarrow> Inr (Models listResp)))"

text \<open>
  The read loop of \<open>PullModel\<close>. The callback is a Go closure: here a function on the
  state \<open>'s\<close> of the sink, \<open>None\<close> for a \<open>nil\<close> callback. The loop returns the result,
  the sink, and the part of the body that no call of \<open>Decode\<close> has consumed.
\<close>

function pull_loop ::
  "(PullProgress \<Rightarrow> 's \<Rightarrow> 's) option \<Rightarrow> PullProgress decoded list \<Rightarrow> 's
     \<Rightarrow> (error + unit) \<times> 's \<times> PullProgress decoded list" where
  "pull_loop progressCallback decoder s =
     (case Decode decoder of
        (Inl err, decoder') \<Rightarrow>
          if err = EOF then (Inr (), s, decoder')
          else (Inl (DecodeError ''progress'' err), s, decoder')
      | (Inr progress, decoder') \<Rightarrow>
          (let s' = (case progressCallback of None \<Rightarrow> s | Some f \<Rightarrow> f progress s)
           in if Status progress = ''success'' then (Inr (), s', decoder')
              else pull_loop progressCallback decoder' s'))"
  by pat_completeness auto

termination
  apply (relation "measure (\<lambda>(cb, decoder, s). length decoder)")
   apply simp
  subgoal for cb decoder s x y xa xb
    by (cases decoder rule: Decode.cases) auto
  done

definition PullModel ::
  "Client \<Rightarrow> PullProgress net \<Rightarrow> string \<Rightarrow> (PullProgress \<Rightarrow> 's \<Rightarrow> 's) option \<Rightarrow> 's
     \<Rightarrow> (error + unit) \<times> 's \<times> PullProgress decoded list" where
  "PullModel c w name progressCallback s =
     (case Marshal_PullRequest \<lparr>pr_Name = name, pr_Stream = True\<rparr> of
        Inl err \<Rightarrow> (Inl err, s, [])
      | Inr body \<Rightarrow>
          (case post c w ''/api/pull'' body of
             Inl err \<Rightarrow> (Inl err, s, [])
           | Inr resp \<Rightarrow> pull_loop progressCallback (Body resp) s))"

definition DeleteModel :: "Client \<Rightarrow> 'a net \<Rightarrow> string \<Rightarrow> error + unit" where
  "DeleteModel c w name =
     (case Marshal_DeleteRequest \<lparr>dr_Name = name\<rparr> of
        Inl err \<Rightarrow> Inl err
      | Inr body \<Rightarrow>
          (case delete c w ''/api/delete'' body of
             Inl err \<Rightarrow> Inl err
           | Inr resp \<Rightarrow>
               if StatusCode resp \<noteq> 200
               then Inl (NonSuccessStatus ''delete request'' (StatusCode resp))
               else Inr ()))"

definition Generate ::
  "Client \<Rightarrow> GenerateResponse net \<Rightarrow> string \<Rightarrow> string \<Rightarrow> (string \<times> iface) list
     \<Rightarrow> error + GenerateResponse" where
  "Generate c w model prompt options =
     (case Marshal_GenerateRequest
             \<lparr>gr_Model = model, gr_Prompt = prompt, gr_Stream = False, gr_Options = options\<rparr> of
        Inl err \<Rightarrow> Inl err
      | Inr body \<Rightarrow>
          (case post c w ''/api/generate'' body of
             Inl err \<Rightarrow> Inl err
           | Inr resp \<Rightarrow>
               (case fst (Decode (Body resp)) of
                  Inl err \<Rightarrow> Inl (DecodeError ''response'' err)
                | Inr genResp \<Rightarrow> Inr genResp)))"

definition Health :: "Client \<Rightarrow> 'a net \<Rightarrow> error + unit" where
  "Health c w =
     (case get c w ''/api/version'' of
        Inl err \<Rightarrow> Inl err
      | Inr resp \<Rightarrow>
          if StatusCode resp \<noteq> 200
          then Inl (NonSuccessStatus ''health check'' (StatusCode resp))
          else Inr ())"

section \<open>Library functions of Go used by the probes\<close>

subsection \<open>Integers\<close>

text \<open>
  \<open>int\<close> and \<open>int64\<close> are 64-bit two's complement (the build is for amd64); they are
  modelled as \<open>int\<close>, with \<open>wrap64\<close> where a product can leave the range. Go's \<open>/\<close>
  truncates towards zero.
\<close>

definition wrap64 :: "int \<Rightarrow> int" where
  "wrap64 x = (x + 2 ^ 63) mod 2 ^ 64 - 2 ^ 63"

definition quo :: "int \<Rightarrow> int \<Rightarrow> int" where
  "quo a b = (if (a < 0) = (b < 0) then \<bar>a\<bar> div \<bar>b\<bar> else - (\<bar>a\<bar> div \<bar>b\<bar>))"

subsection \<open>float64\<close>

text \<open>
  A \<open>float64\<close> is a real number that an IEEE 754 double can hold, or one of the special
  values. Every conversion and every operation rounds its exact result to the nearest
  double, ties to the even significand (\<open>f64\<close>): the significand has 53 bits, the
  exponent of the leading bit runs from -1022 (below it the spacing stays that of the
  subnormal numbers) to 1023 (above it the result is an infinity). The sign of a zero is
  not kept.
\<close>

datatype float64 = Finite real | PosInf | NegInf | NaN

fun ge_zero :: "float64 \<Rightarrow> bool" where
  "ge_zero (Finite r) = (0 \<le> r)"
| "ge_zero PosInf = True"
| "ge_zero NegInf = False"
| "ge_zero NaN = False"

text \<open>The number of bits of a natural number.\<close>

fun bits :: "nat \<Rightarrow> nat" where
  "bits n = (if n = 0 then 0 else Suc (bits (n div 2)))"

definition pow2 :: "int \<Rightarrow> real" where
  "pow2 k = (if 0 \<le> k then 2 ^ nat k else 1 / 2 ^ nat (- k))"

text \<open>For a positive \<open>x\<close>, the \<open>e\<close> with \<open>2^e \<le> x < 2^(e+1)\<close>.\<close>

definition exponent :: "real \<Rightarrow> int" where
  "exponent x =
     (if 1 \<le> x then int (bits (nat \<lfloor>x\<rfloor>)) - 1 else - int (bits (nat (\<lceil>1 / x\<rceil> - 1))))"

definition round_half_even :: "real \<Rightarrow> int" where
  "round_half_even y =
     (let f = \<lfloor>y\<rfloor>; r = y - of_int f
      in if r < 1 / 2 then f else if 1 / 2 < r then f + 1 else if even f then f else f + 1)"

definition f64 :: "real \<Rightarrow> float64" where
  "f64 x =
     (if x = 0 then Finite 0
      else let q = pow2 (max (exponent \<bar>x\<bar>) (- 1022) - 52);
               r = of_int (round_half_even (\<bar>x\<bar> / q)) * q
           in if 2 ^ 1024 \<le> r then (if 0 < x then PosInf else NegInf)
              else Finite (if 0 < x then r else - r))"

text \<open>The conversions \<open>float64(n)\<close> of a \<open>uint64\<close> and of an \<open>int\<close>.\<close>

definition float64_of_uint64 :: "64 word \<Rightarrow> float64" where
  "float64_of_uint64 w = f64 (of_nat (unat w))"

definition float64_of_int :: "int \<Rightarrow> float64" where
  "float64_of_int i = f64 (of_int i)"

text \<open>
  Division and multiplication. The sampler only divides finite values by finite values
  other than zero; the other cases follow IEEE 754 as far as the sign of zero allows.
\<close>

fun fdiv :: "float64 \<Rightarrow> float64 \<Rightarrow> float64" where
  "fdiv (Finite a) (Finite b) =
     (if b = 0 then (if a = 0 then NaN else if 0 < a then PosInf else NegInf)
      else f64 (a / b))"
| "fdiv NaN y = NaN"
| "fdiv x NaN = NaN"
| "fdiv (Finite a) y = Finite 0"
| "fdiv PosInf (Finite b) = (if 0 \<le> b then PosInf else NegInf)"
| "fdiv NegInf (Finite b) = (if 0 \<le> b then NegInf else PosInf)"
| "fdiv x y = NaN"

fun fmul :: "float64 \<Rightarrow> float64 \<Rightarrow> float64" where
  "fmul (Finite a) (Finite b) = f64 (a * b)"
| "fmul NaN y = NaN"
| "fmul x NaN = NaN"
| "fmul (Finite a) PosInf = (if a = 0 then NaN else if 0 < a then PosInf else NegInf)"
| "fmul (Finite a) NegInf = (if a = 0 then NaN else if 0 < a then NegInf else PosInf)"
| "fmul PosInf (Finite b) = (if b = 0 then NaN else if 0 < b then PosInf else NegInf)"
| "fmul NegInf (Finite b) = (if b = 0 then NaN else if 0 < b then NegInf else PosInf)"
| "fmul PosInf PosInf = PosInf"
| "fmul NegInf NegInf = PosInf"
| "fmul x y = NegInf"

subsection \<open>strconv\<close>

definition digit_val :: "char \<Rightarrow> nat option" where
  "digit_val c = map_of (zip ''0123456789'' [0, 1, 2, 3, 4, 5, 6, 7, 8, 9]) c"

definition is_digit :: "char \<Rightarrow> bool" where
  "is_digit c = (digit_val c \<noteq> None)"

fun parse_digits :: "string \<Rightarrow> nat \<Rightarrow> nat option" where
  "parse_digits [] acc = Some acc"
| "parse_digits (c # cs) acc =
     (case digit_val c of None \<Rightarrow> None | Some d \<Rightarrow> parse_digits cs (10 * acc + d))"

text \<open>\<open>strconv.ParseUint(s, 10, 64)\<close>: \<open>None\<close> is a syntax or a range error.\<close>

definition ParseUint :: "string \<Rightarrow> nat option" where
  "ParseUint s =
     (if s = [] then None
      else case parse_digits s 0 of
             None \<Rightarrow> None
           | Some n \<Rightarrow> if n < 2 ^ 64 then Some n else None)"

text \<open>
  \<open>strconv.ParseInt(s, 10, 64)\<close>, which is also \<open>strconv.Atoi\<close>: the value and whether the
  error is \<open>nil\<close>. A syntax error returns 0, a range error the nearest bound.
\<close>

definition ParseInt :: "string \<Rightarrow> int \<times> bool" where
  "ParseInt s =
     (let neg = (take 1 s = ''-'');
          body = (if take 1 s = ''+'' \<or> take 1 s = ''-'' then drop 1 s else s)
      in if body = [] then (0, False)
         else case parse_digits body 0 of
                None \<Rightarrow> (0, False)
              | Some n \<Rightarrow>
                  if \<not> neg \<and> n \<ge> 2 ^ 63 then (2 ^ 63 - 1, False)
                  else if neg \<and> n > 2 ^ 63 then (- (2 ^ 63), False)
                  else (if neg then - int n else int n, True))"

definition Atoi :: "string \<Rightarrow> int \<times> bool" where
  "Atoi s = ParseInt s"

text \<open>\<open>%d\<close> of \<open>fmt.Sprintf\<close>.\<close>

fun digits_of :: "nat \<Rightarrow> string" where
  "digits_of n =
     (if n < 10 then [''0123456789'' ! n]
      else digits_of (n div 10) @ [''0123456789'' ! (n mod 10)])"

definition Sprint_d :: "int \<Rightarrow> string" where
  "Sprint_d i = (if i < 0 then ''-'' @ digits_of (nat (- i)) else digits_of (nat i))"

subsection \<open>strings\<close>

text \<open>
  Go strings are byte strings in UTF-8. \<open>space_width s\<close> is the number of bytes of the
  white-space rune (\<open>unicode.IsSpace\<close>) that \<open>s\<close> starts with, and 0 when it starts with
  none: the six ASCII ones, U+0085, U+00A0, U+1680, U+2000 to U+200A, U+2028, U+2029,
  U+202F, U+205F and U+3000.
\<close>

definition space_width :: "string \<Rightarrow> nat" where
  "space_width s =
     (case s of [] \<Rightarrow> 0 | c # cs \<Rightarrow>
      if c \<in> set [CHR 0x09, CHR 0x0A, CHR 0x0B, CHR 0x0C, CHR 0x0D, CHR 0x20] then 1
      else if c = CHR 0xC2 \<and> take 1 cs \<in> set [[CHR 0x85], [CHR 0xA0]] then 2
      else if c = CHR 0xE1 \<and> take 2 cs = [CHR 0x9A, CHR 0x80] then 3
      else if c = CHR 0xE2 \<and> take 2 cs \<in> set
                [[CHR 0x80, CHR 0x80], [CHR 0x80, CHR 0x81], [CHR 0x80, CHR 0x82],
                 [CHR 0x80, CHR 0x83], [CHR 0x80, CHR 0x84], [CHR 0x80, CHR 0x85],
                 [CHR 0x80, CHR 0x86], [CHR 0x80, CHR 0x87], [CHR 0x80, CHR 0x88],
                 [CHR 0x80, CHR 0x89], [CHR 0x80, CHR 0x8A], [CHR 0x80, CHR 0xA8],
                 [CHR 0x80, CHR 0xA9], [CHR 0x80, CHR 0xAF], [CHR 0x81, CHR 0x9F]] then 3
      else if c = CHR 0xE3 \<and> take 2 cs = [CHR 0x80, CHR 0x80] then 3
      else 0)"

fun TrimLeft_space :: "string \<Rightarrow> string" where
  "TrimLeft_space [] = []"
| "TrimLeft_space (c # cs) =
     (if space_width (c # cs) = 0 then c # cs
      else TrimLeft_space (drop (space_width (c # cs) - 1) cs))"

text \<open>
  Trimming on the right works on the reversed string: its front is the end of a
  white-space rune when the bytes taken from it, put back in order, are one.
\<close>

definition ends_space :: "nat \<Rightarrow> string \<Rightarrow> bool" where
  "ends_space n r = (n \<le> length r \<and> space_width (rev (take n r)) = n)"

fun TrimRight_space_rev :: "string \<Rightarrow> string" where
  "TrimRight_space_rev [] = []"
| "TrimRight_space_rev (c # cs) =
     (if ends_space 1 (c # cs) then TrimRight_space_rev cs
      else if ends_space 2 (c # cs) then TrimRight_space_rev (drop 1 cs)
      else if ends_space 3 (c # cs) then TrimRight_space_rev (drop 2 cs)
      else c # cs)"

definition TrimSpace :: "string \<Rightarrow> string" where
  "TrimSpace s = rev (TrimRight_space_rev (rev (TrimLeft_space s)))"

text \<open>\<open>strings.Fields\<close>; the first argument is the field being read.\<close>

fun Fields_from :: "string \<Rightarrow> string \<Rightarrow> string list" where
  "Fields_from cur [] = (if cur = [] then [] else [cur])"
| "Fields_from cur (c # cs) =
     (if space_width (c # cs) = 0 then Fields_from (cur @ [c]) cs
      else (if cur = [] then [] else [cur])
           @ Fields_from [] (drop (space_width (c # cs) - 1) cs))"

definition Fields :: "string \<Rightarrow> string list" where
  "Fields s = Fields_from [] s"

definition HasPrefix :: "string \<Rightarrow> string \<Rightarrow> bool" where
  "HasPrefix s p = (take (length p) s = p)"

definition TrimSuffix :: "string \<Rightarrow> string \<Rightarrow> string" where
  "TrimSuffix s suf =
     (if length suf \<le> length s \<and> drop (length s - length suf) s = suf
      then take (length s - length suf) s else s)"

fun Contains :: "string \<Rightarrow> string \<Rightarrow> bool" where
  "Contains [] sub = (sub = [])"
| "Contains (c # cs) sub = (HasPrefix (c # cs) sub \<or> Contains cs sub)"

text \<open>\<open>strings.Split\<close> for a separator that is not empty; the second argument is the piece being read.\<close>

fun Split_from :: "string \<Rightarrow> string \<Rightarrow> string \<Rightarrow> string list" where
  "Split_from sep cur [] = [cur]"
| "Split_from sep cur (c # cs) =
     (if sep \<noteq> [] \<and> HasPrefix (c # cs) sep
      then cur # Split_from sep [] (drop (length sep - 1) cs)
      else Split_from sep (cur @ [c]) cs)"

definition Split :: "string \<Rightarrow> string \<Rightarrow> string list" where
  "Split s sep = Split_from sep [] s"

fun Join :: "string list \<Rightarrow> string \<Rightarrow> string" where
  "Join [] sep = []"
| "Join [x] sep = x"
| "Join (x # y # ys) sep = x @ sep @ Join (y # ys) sep"

subsection \<open>bufio.Scanner\<close>

text \<open>
  The lines that successive calls of \<open>Scan\<close> yield (the default split function): each
  line without its end-of-line marker and without one trailing carriage return, a last
  line without marker when it is not empty. A line of 65536 bytes or more does not fit
  the buffer: \<open>Scan\<close> returns false there and the reading stops.
\<close>

definition dropCR :: "string \<Rightarrow> string" where
  "dropCR l = (if l \<noteq> [] \<and> last l = CHR 0x0D then butlast l else l)"

fun ScanLines :: "string \<Rightarrow> string \<Rightarrow> string list" where
  "ScanLines cur [] = (if cur = [] \<or> 65536 \<le> length cur then [] else [dropCR cur])"
| "ScanLines cur (c # cs) =
     (if c = CHR 0x0A
      then (if 65536 \<le> length cur then [] else dropCR cur # ScanLines [] cs)
      else ScanLines (cur @ [c]) cs)"

subsection \<open>regexp\<close>

text \<open>
  The three patterns of the prober are literals, \<open>.*\<close>, \<open>\d+\<close> and one-letter classes
  under \<open>(?i)\<close>, so they are matched directly. Case folding is Go's: a letter of the
  pattern matches both of its ASCII cases, and \<open>s\<close> also matches U+017F (bytes C5 BF);
  the patterns have no \<open>k\<close>. \<open>ci_match p t\<close> is what is left of \<open>t\<close> after the literal
  \<open>p\<close> (given in lower case) at its front.
\<close>

definition to_lower :: "char \<Rightarrow> char" where
  "to_lower c =
     (case map_of (zip ''ABCDEFGHIJKLMNOPQRSTUVWXYZ'' ''abcdefghijklmnopqrstuvwxyz'') c of
        None \<Rightarrow> c | Some l \<Rightarrow> l)"

fun ci_match :: "string \<Rightarrow> string \<Rightarrow> string option" where
  "ci_match [] t = Some t"
| "ci_match (p # ps) [] = None"
| "ci_match (p # ps) (c # cs) =
     (if to_lower c = p then ci_match ps cs
      else if p = CHR ''s'' \<and> c = CHR 0xC5 \<and> take 1 cs = [CHR 0xBF] then ci_match ps (drop 1 cs)
      else None)"

text \<open>Some word of \<open>ws\<close> occurs in \<open>t\<close> after any characters but a newline (\<open>.*\<close> then the word).\<close>

fun later_word :: "string list \<Rightarrow> string \<Rightarrow> bool" where
  "later_word ws [] = (\<exists>w \<in> set ws. ci_match w [] \<noteq> None)"
| "later_word ws (c # cs) =
     ((\<exists>w \<in> set ws. ci_match w (c # cs) \<noteq> None) \<or> (c \<noteq> CHR 0x0A \<and> later_word ws cs))"

text \<open>\<open>MatchString\<close> of \<open>(?i)(w1|...).*(v1|...)\<close>.\<close>

fun two_words :: "string list \<Rightarrow> string list \<Rightarrow> string \<Rightarrow> bool" where
  "two_words ws vs [] = False"
| "two_words ws vs (c # cs) =
     ((\<exists>w \<in> set ws. case ci_match w (c # cs) of None \<Rightarrow> False | Some r \<Rightarrow> later_word vs r)
      \<or> two_words ws vs cs)"

definition nvidiaRegex :: "string \<Rightarrow> bool" where
  "nvidiaRegex line =
     two_words [''nvidia''] [''geforce'', ''rtx'', ''gtx'', ''tesla'', ''quadro''] line"

definition amdRegex :: "string \<Rightarrow> bool" where
  "amdRegex line =
     two_words [''amd'', ''ati''] [''radeon'', ''rx'', ''ellesmere'', ''polaris''] line"

text \<open>
  \<open>.*?(\d+)([MG])B\<close> under \<open>(?i)\<close> at the front of a text: the first place, reached
  without crossing a newline, where a whole run of digits is followed by a unit letter
  and a \<open>B\<close>; the two groups.
\<close>

fun size_unit :: "string \<Rightarrow> (string \<times> string) option" where
  "size_unit [] = None"
| "size_unit (c # cs) =
     (if is_digit c then
        (case dropWhile is_digit cs of
           u # b # _ \<Rightarrow>
             if u \<in> set ''MGmg'' \<and> b \<in> set ''Bb'' then Some (c # takeWhile is_digit cs, [u])
             else size_unit cs
         | _ \<Rightarrow> size_unit cs)
      else if c = CHR 0x0A then None
      else size_unit cs)"

text \<open>\<open>FindStringSubmatch\<close> of \<open>(?i)memory.*?(\d+)([MG])B\<close>: groups 1 and 2 of the leftmost match.\<close>

fun memRegex :: "string \<Rightarrow> (string \<times> string) option" where
  "memRegex [] = None"
| "memRegex (c # cs) =
     (case ci_match ''memory'' (c # cs) of
        None \<Rightarrow> memRegex cs
      | Some r \<Rightarrow> (case size_unit r of None \<Rightarrow> memRegex cs | Some m \<Rightarrow> Some m))"

section \<open>The host\<close>

text \<open>
  What the probes read from the machine at one instant.
  \<^item> \<open>Open p\<close> is \<open>os.Open\<close> of \<open>p\<close> followed by reading through a \<open>bufio.Scanner\<close>: \<open>None\<close>
    when the file cannot be opened, otherwise the bytes that the reads deliver before the
    end of the file or before a read fails (the scanner ends its input in both cases, and
    its callers never look at its error).
  \<^item> \<open>ReadFile p\<close> is \<open>os.ReadFile\<close>: the content, \<open>None\<close> when opening or any read fails.
  \<^item> \<open>ReadDir p\<close> is the list of entry names of a directory, \<open>Stat p\<close> whether \<open>os.Stat\<close>
    succeeds.
  \<^item> \<open>Output cmd args\<close> is the standard output of an external command, \<open>None\<close> when it
    cannot be started or exits with an error; \<open>cmd.Run()\<close> succeeds exactly when \<open>Output\<close>
    is not \<open>None\<close>.
  \<^item> \<open>Now\<close> is the clock.
  \<^item> \<open>ParseFloat\<close> is \<open>strconv.ParseFloat(s, 64)\<close>, \<open>None\<close> on an error: reading decimal text
    as a \<open>float64\<close> is outside this model, so the function is a parameter.
\<close>

record host =
  Open :: "string \<Rightarrow> string option"
  ReadFile :: "string \<Rightarrow> string option"
  ReadDir :: "string \<Rightarrow> string list option"
  Stat :: "string \<Rightarrow> bool"
  Output :: "string \<Rightarrow> string list \<Rightarrow> string option"
  ParseFloat :: "string \<Rightarrow> float64 option"
  Now :: int

definition Run :: "host \<Rightarrow> string \<Rightarrow> string list \<Rightarrow> bool" where
  "Run h cmd args = (Output h cmd args \<noteq> None)"

section \<open>Metrics sampler (package monitor)\<close>

record PerformanceMetrics =
  CPUUsage :: float64
  MemoryUsedMB :: int
  MemoryTotalMB :: int
  MemoryUsagePercent :: float64
  GPUUsage :: float64
  GPUMemoryUsedMB :: int
  GPUMemoryTotalMB :: int
  Timestamp :: int

text \<open>
  The loop of \<open>getCPUUsage\<close> over \<open>fields[i]\<close>, \<open>i\<close> from 1: the fields left, \<open>i\<close>, and
  the two \<open>uint64\<close> variables \<open>idle\<close> and \<open>total\<close>, whose sum wraps around.
\<close>

fun cpu_loop :: "string list \<Rightarrow> nat \<Rightarrow> 64 word \<Rightarrow> 64 word \<Rightarrow> error + (64 word \<times> 64 word)" where
  "cpu_loop [] i idle tot = Inr (idle, tot)"
| "cpu_loop (f # fs) i idle tot =
     (case ParseUint f of
        None \<Rightarrow> Inl (NumError f)
      | Some val \<Rightarrow>
          cpu_loop fs (i + 1) (if i = 4 then of_nat val else idle) (tot + of_nat val))"

text \<open>
  In the first two early returns the variable \<open>err\<close> is the one of \<open>os.Open\<close>, which is
  \<open>nil\<close> there: the function returns 0 and no error, also when the file opens and the
  first \<open>Scan\<close> fails. The usage is computed in \<open>float64\<close>: two conversions, a division
  and a multiplication, each rounded.
\<close>

definition getCPUUsage :: "host \<Rightarrow> error + float64" where
  "getCPUUsage h =
     (case Open h ''/proc/stat'' of
        None \<Rightarrow> Inl (PathError ''/proc/stat'')
      | Some content \<Rightarrow>
          (case ScanLines [] content of
             [] \<Rightarrow> Inr (Finite 0)
           | line # _ \<Rightarrow>
               (let fields = Fields line in
                if length fields < 8 \<or> fields ! 0 \<noteq> ''cpu'' then Inr (Finite 0)
                else (case cpu_loop (drop 1 fields) 1 0 0 of
                        Inl err \<Rightarrow> Inl err
                      | Inr (idle, tot) \<Rightarrow>
                          if tot = 0 then Inr (Finite 0)
                          else Inr (fmul (fdiv (float64_of_uint64 (tot - idle))
                                                (float64_of_uint64 tot))
                                          (Finite 100))))))"

fun meminfo_loop :: "string list \<Rightarrow> int \<times> int \<times> int \<times> int \<Rightarrow> int \<times> int \<times> int \<times> int" where
  "meminfo_loop [] acc = acc"
| "meminfo_loop (line # rest) (memTotal, memFree, memBuffers, memCached) =
     (let fields = Fields line in
      if length fields < 2 then meminfo_loop rest (memTotal, memFree, memBuffers, memCached)
      else
        (let key = TrimSuffix (fields ! 0) '':''; (val, ok) = Atoi (fields ! 1) in
         if \<not> ok then meminfo_loop rest (memTotal, memFree, memBuffers, memCached)
         else if key = ''MemTotal'' then meminfo_loop rest (quo val 1024, memFree, memBuffers, memCached)
         else if key = ''MemFree'' then meminfo_loop rest (memTotal, quo val 1024, memBuffers, memCached)
         else if key = ''Buffers'' then meminfo_loop rest (memTotal, memFree, quo val 1024, memCached)
         else if key = ''Cached'' then meminfo_loop rest (memTotal, memFree, memBuffers, quo val 1024)
         else meminfo_loop rest (memTotal, memFree, memBuffers, memCached)))"

definition getMemoryUsage :: "host \<Rightarrow> error + (int \<times> int)" where
  "getMemoryUsage h =
     (case Open h ''/proc/meminfo'' of
        None \<Rightarrow> Inl (PathError ''/proc/meminfo'')
      | Some content \<Rightarrow>
          (case meminfo_loop (ScanLines [] content) (0, 0, 0, 0) of
             (memTotal, memFree, memBuffers, memCached) \<Rightarrow>
               Inr (memTotal - memFree - memBuffers - memCached, memTotal)))"

definition getAMDGPUMemory :: "host \<Rightarrow> string \<Rightarrow> int" where
  "getAMDGPUMemory h path =
     (case ReadFile h path of
        None \<Rightarrow> 0
      | Some data \<Rightarrow> (case ParseInt (TrimSpace data) of (val, ok) \<Rightarrow> if ok then val else 0))"

fun usage_loop :: "host \<Rightarrow> string list \<Rightarrow> float64" where
  "usage_loop h [] = Finite (- 1)"
| "usage_loop h (path # usagePaths) =
     (case ReadFile h path of
        None \<Rightarrow> usage_loop h usagePaths
      | Some data \<Rightarrow>
          (case ParseFloat h (TrimSpace data) of
             None \<Rightarrow> usage_loop h usagePaths
           | Some usage \<Rightarrow> usage))"

definition getAMDGPUUsagePercent :: "host \<Rightarrow> float64" where
  "getAMDGPUUsagePercent h =
     usage_loop h [''/sys/class/drm/card0/device/gpu_busy_percent'',
                   ''/sys/class/drm/card0/device/busy_percent'']"

definition getAMDGPUUsage :: "host \<Rightarrow> float64 \<times> int \<times> int" where
  "getAMDGPUUsage h =
     (let gpuMemTotal = getAMDGPUMemory h ''/sys/class/drm/card0/device/mem_info_vram_total'';
          gpuMemUsed = getAMDGPUMemory h ''/sys/class/drm/card0/device/mem_info_vram_used''
      in if gpuMemTotal > 0 then
           (let totalMB = quo gpuMemTotal (1024 * 1024);
                usedMB = quo gpuMemUsed (1024 * 1024);
                usage = getAMDGPUUsagePercent h
            in (usage, usedMB, totalMB))
         else (Finite (- 1), 0, 0))"

text \<open>The sampler; what it writes to the log is not part of the model.\<close>

definition GetPerformanceMetrics :: "host \<Rightarrow> PerformanceMetrics" where
  "GetPerformanceMetrics h =
     (let metrics = \<lparr>CPUUsage = Finite 0, MemoryUsedMB = 0, MemoryTotalMB = 0,
                     MemoryUsagePercent = Finite 0, GPUUsage = Finite (- 1),
                     GPUMemoryUsedMB = 0, GPUMemoryTotalMB = 0, Timestamp = Now h\<rparr>;
          metrics = (case getCPUUsage h of
                       Inl err \<Rightarrow> metrics
                     | Inr cpuUsage \<Rightarrow> metrics\<lparr>CPUUsage := cpuUsage\<rparr>);
          metrics = (case getMemoryUsage h of
                       Inl err \<Rightarrow> metrics
                     | Inr (memUsed, memTotal) \<Rightarrow>
                         (let metrics = metrics\<lparr>MemoryUsedMB := memUsed, MemoryTotalMB := memTotal\<rparr>
                          in if memTotal > 0
                             then metrics\<lparr>MemoryUsagePercent :=
                                    fmul (fdiv (float64_of_int memUsed) (float64_of_int memTotal))
                                         (Finite 100)\<rparr>
                             else metrics))
      in case getAMDGPUUsage h of
           (gpuUsage, gpuMemUsed, gpuMemTotal) \<Rightarrow>
             if ge_zero gpuUsage
             then metrics\<lparr>GPUUsage := gpuUsage, GPUMemoryUsedMB := gpuMemUsed,
                          GPUMemoryTotalMB := gpuMemTotal\<rparr>
             else metrics)"

section \<open>Hardware prober (package system)\<close>

record SystemInfo =
  HasDocker :: bool
  HasROCm :: bool
  HasNVIDIA :: bool
  HasAMDGPU :: bool
  GPUMemory :: int
  SystemMemory :: int
  GPUModel :: string
  GPUType :: string
  KernelVersion :: string

definition checkDocker :: "host \<Rightarrow> bool" where
  "checkDocker h = Run h ''docker'' [''--version'']"

text \<open>
  The inner loop of the two GPU checks, over the lines \<open>lines[i+1]\<close> to \<open>lines[i+19]\<close>
  that exist: the value of \<open>memory\<close> when the loop ends.
\<close>

fun memory_scan :: "string list \<Rightarrow> int" where
  "memory_scan [] = 0"
| "memory_scan (l # ls) =
     (if TrimSpace l = [] then 0
      else case memRegex l of
             Some (digits, unit) \<Rightarrow>
               (let sz = fst (Atoi digits)
                in if unit = ''G'' then wrap64 (sz * 1024) else sz)
           | None \<Rightarrow> memory_scan ls)"

text \<open>The outer loop, for the vendor pattern \<open>re\<close>: it stops at the first line that matches.\<close>

fun gpu_scan :: "(string \<Rightarrow> bool) \<Rightarrow> string list \<Rightarrow> bool \<times> string \<times> int" where
  "gpu_scan re [] = (False, [], 0)"
| "gpu_scan re (line # rest) =
     (if Contains line ''VGA compatible controller'' \<and> re line
      then (True,
            (let parts = Split line '': '' in if length parts > 1 then TrimSpace (parts ! 1) else []),
            memory_scan (take 19 rest))
      else gpu_scan re rest)"

definition getNVIDIAMemoryFromSMI :: "host \<Rightarrow> int" where
  "getNVIDIAMemoryFromSMI h =
     (case Output h ''nvidia-smi'' [''--query-gpu=memory.total'', ''--format=csv,noheader,nounits''] of
        None \<Rightarrow> 8192
      | Some output \<Rightarrow>
          (case Atoi (TrimSpace output) of (mem, ok) \<Rightarrow> if ok then mem else 8192))"

definition checkNVIDIAGPU :: "host \<Rightarrow> bool \<times> string \<times> int" where
  "checkNVIDIAGPU h =
     (case Output h ''lspci'' [''-v''] of
        None \<Rightarrow> (False, [], 0)
      | Some output \<Rightarrow>
          (case gpu_scan nvidiaRegex (Split output [CHR 0x0A]) of
             (hasNVIDIA, gpuModel, memory) \<Rightarrow>
               (hasNVIDIA, gpuModel,
                if hasNVIDIA \<and> memory = 0 then getNVIDIAMemoryFromSMI h else memory)))"

fun card_loop :: "host \<Rightarrow> string list \<Rightarrow> int" where
  "card_loop h [] = 8192"
| "card_loop h (name # files) =
     (if HasPrefix name ''card'' \<and> \<not> Contains name ''-'' then
        (case ReadFile h (''/sys/class/drm/'' @ name @ ''/device/mem_info_vram_total'') of
           None \<Rightarrow> card_loop h files
         | Some data \<Rightarrow>
             (case ParseInt (TrimSpace data) of
                (sz, ok) \<Rightarrow> if ok then quo sz (1024 * 1024) else card_loop h files))
      else card_loop h files)"

definition getGPUMemoryAlternative :: "host \<Rightarrow> int" where
  "getGPUMemoryAlternative h =
     (case ReadDir h ''/sys/class/drm'' of
        None \<Rightarrow> 0
      | Some files \<Rightarrow> card_loop h files)"

definition checkAMDGPU :: "host \<Rightarrow> bool \<times> string \<times> int" where
  "checkAMDGPU h =
     (case Output h ''lspci'' [''-v''] of
        None \<Rightarrow> (False, [], 0)
      | Some output \<Rightarrow>
          (case gpu_scan amdRegex (Split output [CHR 0x0A]) of
             (hasAMD, gpuModel, memory) \<Rightarrow>
               (hasAMD, gpuModel,
                if hasAMD \<and> memory = 0 then getGPUMemoryAlternative h else memory)))"

text \<open>The loop of \<open>checkROCm\<close> over the install paths: \<open>Some b\<close> when it returns \<open>b\<close>.\<close>

fun rocm_loop :: "host \<Rightarrow> string list \<Rightarrow> bool option" where
  "rocm_loop h [] = None"
| "rocm_loop h (path # paths) =
     (if Stat h path then Some (Run h path []) else rocm_loop h paths)"

definition checkROCm :: "host \<Rightarrow> bool" where
  "checkROCm h =
     (case rocm_loop h [''/opt/rocm/bin/rocminfo'', ''/usr/bin/rocminfo''] of
        Some b \<Rightarrow> b
      | None \<Rightarrow>
          (case Output h ''lsmod'' [] of
             None \<Rightarrow> False
           | Some output \<Rightarrow> Contains output ''amdgpu''))"

fun memtotal_loop :: "string list \<Rightarrow> int" where
  "memtotal_loop [] = 0"
| "memtotal_loop (line # rest) =
     (if HasPrefix line ''MemTotal:'' then
        (let fields = Fields line in
         if length fields \<ge> 2 then
           (case Atoi (fields ! 1) of (kb, ok) \<Rightarrow> if ok then quo kb 1024 else memtotal_loop rest)
         else memtotal_loop rest)
      else memtotal_loop rest)"

definition getSystemMemory :: "host \<Rightarrow> int" where
  "getSystemMemory h =
     (case Open h ''/proc/meminfo'' of
        None \<Rightarrow> 0
      | Some content \<Rightarrow> memtotal_loop (ScanLines [] content))"

definition getKernelVersion :: "host \<Rightarrow> string" where
  "getKernelVersion h =
     (case Output h ''uname'' [''-r''] of
        None \<Rightarrow> ''unknown''
      | Some output \<Rightarrow> TrimSpace output)"

text \<open>
  The probe. The two statements that call the GPU checks are written with \<open>:=\<close> and a
  field of \<open>info\<close> on the left (\<open>info.HasNVIDIA, nvidiaModel, nvidiaMemory := ...\<close>), which
  the Go compiler refuses; the model reads them as what they say: the first result goes
  to the field \<open>HasNVIDIA\<close> or \<open>HasAMDGPU\<close>, the two others to new variables. The error
  returned is always \<open>nil\<close>.
\<close>

definition GetSystemInfo :: "host \<Rightarrow> error + SystemInfo" where
  "GetSystemInfo h =
     (let info = \<lparr>HasDocker = False, HasROCm = False, HasNVIDIA = False, HasAMDGPU = False,
                  GPUMemory = 0, SystemMemory = 0, GPUModel = [], GPUType = [],
                  KernelVersion = []\<rparr>;
          info = info\<lparr>HasDocker := checkDocker h\<rparr>
      in case checkNVIDIAGPU h of (hasNVIDIA, nvidiaModel, nvidiaMemory) \<Rightarrow>
         case checkAMDGPU h of (hasAMD, amdModel, amdMemory) \<Rightarrow>
         (let info = info\<lparr>HasNVIDIA := hasNVIDIA, HasAMDGPU := hasAMD\<rparr>;
              info = (if HasNVIDIA info
                      then info\<lparr>GPUType := ''nvidia'', GPUModel := nvidiaModel, GPUMemory := nvidiaMemory\<rparr>
                      else if HasAMDGPU info
                      then info\<lparr>GPUType := ''amd'', GPUModel := amdModel, GPUMemory := amdMemory\<rparr>
                      else info\<lparr>GPUType := ''unknown''\<rparr>);
              info = info\<lparr>HasROCm := checkROCm h\<rparr>;
              info = info\<lparr>SystemMemory := getSystemMemory h\<rparr>;
              info = info\<lparr>KernelVersion := getKernelVersion h\<rparr>
          in Inr info))"

text \<open>
  The requirements check: the warnings it logs and the error it returns (\<open>None\<close> for
  \<open>nil\<close>). \<open>violations\<close> is the slice \<open>errors\<close> when the four tests have run.
\<close>

definition violations :: "SystemInfo \<Rightarrow> string list" where
  "violations info =
     (let errors = [];
          errors = (if \<not> HasDocker info
                    then errors @ [''Docker is not installed or not accessible''] else errors);
          errors = (if \<not> HasNVIDIA info \<and> \<not> HasAMDGPU info
                    then errors @ [''No supported GPU detected (NVIDIA or AMD)''] else errors);
          errors = (if GPUMemory info < 6144
                    then errors @ [''GPU memory ('' @ Sprint_d (GPUMemory info)
                                   @ ''MB) is below recommended minimum (6GB)'']
                    else errors);
          errors = (if SystemMemory info < 8192
                    then errors @ [''System memory ('' @ Sprint_d (SystemMemory info)
                                   @ ''MB) is below recommended minimum (8GB)'']
                    else errors)
      in errors)"

definition validateRequirements :: "host \<Rightarrow> SystemInfo \<Rightarrow> string list \<times> error option" where
  "validateRequirements h info =
     (let errors = violations info;
          warnings = (if GPUType info = ''amd'' \<and> \<not> HasROCm info
                      then [''ROCm not detected - AMD GPU acceleration may not work properly'',
                            ''Install ROCm for optimal performance: https://rocm.docs.amd.com/projects/install-on-linux/en/latest/'']
                      else []);
          warnings = (if GPUType info = ''nvidia''
                         \<and> \<not> Run h ''docker'' [''run'', ''--rm'', ''--gpus'', ''all'',
                                                ''nvidia/cuda:11.0-base'', ''nvidia-smi'']
                      then warnings @
                           [''NVIDIA Container Toolkit not detected - GPU acceleration may not work properly'',
                            ''Install NVIDIA Container Toolkit: https://docs.nvidia.com/datacenter/cloud-native/container-toolkit/install-guide.html'']
                      else warnings)
      in if length errors > 0
         then (warnings,
               Some (RequirementsNotMet
                       (''system requirements not met:'' @ [CHR 0x0A] @ ''  - ''
                        @ Join errors ([CHR 0x0A] @ ''  - ''))))
         else (warnings, None))"

section \<open>Notions used to state the properties\<close>

subsection \<open>Client\<close>

text \<open>
  \<open>deliver cb evs s\<close> is the sink after the callback has received the events \<open>evs\<close> in
  order; \<open>upto_success evs\<close> is the prefix of \<open>evs\<close> that ends at its first event with
  status \<open>success\<close>, that event included. \<open>with_status n w\<close> is the network \<open>w\<close> with the
  status code of every response replaced by \<open>n\<close>. The other definitions are sample inputs.
\<close>

definition deliver :: "(PullProgress \<Rightarrow> 's \<Rightarrow> 's) option \<Rightarrow> PullProgress list \<Rightarrow> 's \<Rightarrow> 's" where
  "deliver cb evs s = (case cb of None \<Rightarrow> s | Some f \<Rightarrow> fold f evs s)"

definition upto_success :: "PullProgress list \<Rightarrow> PullProgress list" where
  "upto_success evs =
     takeWhile (\<lambda>e. Status e \<noteq> ''success'') evs @ take 1 (dropWhile (\<lambda>e. Status e \<noteq> ''success'') evs)"

definition example_client :: Client where
  "example_client = \<lparr>baseURL = ''http://localhost:11434''\<rparr>"

definition ev :: "string \<Rightarrow> PullProgress" where
  "ev st = \<lparr>Status = st, Digest = [], Total = 0, Completed = 0\<rparr>"

definition pull_server :: "PullProgress decoded list \<Rightarrow> PullProgress net" where
  "pull_server body = \<lparr>ParseURL = (\<lambda>u. True), Do = (\<lambda>req. Inr \<lparr>StatusCode = 200, Body = body\<rparr>)\<rparr>"

definition post_only_server :: "unit net" where
  "post_only_server =
     \<lparr>ParseURL = (\<lambda>u. True),
      Do = (\<lambda>req. if Method req = ''POST'' \<and> URL req = ''http://localhost:11434/api/delete''
                     then Inr \<lparr>StatusCode = 200, Body = []\<rparr>
                     else Inr \<lparr>StatusCode = 405, Body = []\<rparr>)\<rparr>"

definition with_status :: "int \<Rightarrow> 'a net \<Rightarrow> 'a net" where
  "with_status n w = w\<lparr>Do := (\<lambda>req. map_sum id (\<lambda>r. r\<lparr>StatusCode := n\<rparr>) (Do w req))\<rparr>"

definition failing_server :: "'a decoded list \<Rightarrow> 'a net" where
  "failing_server body =
     \<lparr>ParseURL = (\<lambda>u. True), Do = (\<lambda>req. Inr \<lparr>StatusCode = 500, Body = body\<rparr>)\<rparr>"

subsection \<open>Sampler\<close>

text \<open>
  The usage formula on the counters themselves, with the total their sum and idle the
  fourth of them: the exact ratio, and the \<open>float64\<close> that the three rounded operations
  of the sampler make of it.
\<close>

definition exact_usage :: "nat list \<Rightarrow> real" where
  "exact_usage cs =
     (if sum_list cs = 0 then 0
      else (of_nat (sum_list cs) - of_nat (cs ! 3)) / of_nat (sum_list cs) * 100)"

definition float_usage :: "nat list \<Rightarrow> float64" where
  "float_usage cs =
     (if sum_list cs = 0 then Finite 0
      else fmul (fdiv (f64 (of_nat (sum_list cs - cs ! 3))) (f64 (of_nat (sum_list cs))))
                (Finite 100))"

subsection \<open>Sample hosts\<close>

text \<open>
  \<open>bare_host\<close> is a machine on which every command fails and no file can be read;
  \<open>with_files\<close> and \<open>with_command\<close> add files and one command to a host.
\<close>

definition bare_host :: host where
  "bare_host =
     \<lparr>Open = (\<lambda>p. None), ReadFile = (\<lambda>p. None), ReadDir = (\<lambda>p. None), Stat = (\<lambda>p. False),
      Output = (\<lambda>cmd args. None), ParseFloat = (\<lambda>s. None), Now = 0\<rparr>"

definition with_files :: "(string \<times> string) list \<Rightarrow> host \<Rightarrow> host" where
  "with_files fs h =
     h\<lparr>Open := (\<lambda>p. case map_of fs p of Some d \<Rightarrow> Some d | None \<Rightarrow> Open h p),
       ReadFile := (\<lambda>p. case map_of fs p of Some d \<Rightarrow> Some d | None \<Rightarrow> ReadFile h p)\<rparr>"

definition with_command :: "string \<Rightarrow> string \<Rightarrow> host \<Rightarrow> host" where
  "with_command cmd out h = h\<lparr>Output := (\<lambda>c args. if c = cmd then Some out else Output h c args)\<rparr>"

text \<open>A card whose memory files are readable and whose two busy-percent files are not.\<close>

definition vram_only_host :: host where
  "vram_only_host =
     with_files [(''/sys/class/drm/card0/device/mem_info_vram_total'', ''8589934592\<newline>''),
                 (''/sys/class/drm/card0/device/mem_info_vram_used'', ''1073741824\<newline>'')]
       bare_host"

text \<open>A card with a busy-percent file of 57 and no memory files; \<open>ParseFloat\<close> reads that one text.\<close>

definition busy_only_host :: host where
  "busy_only_host =
     with_files [(''/sys/class/drm/card0/device/gpu_busy_percent'', ''57\<newline>'')]
       (bare_host\<lparr>ParseFloat := (\<lambda>s. if s = ''57'' then Some (Finite 57) else None)\<rparr>)"

definition stat_host :: "string \<Rightarrow> host" where
  "stat_host line = with_files [(''/proc/stat'', line @ ''\<newline>'')] bare_host"

text \<open>
  An AMD card that the PCI listing shows without a memory size, on a machine where the
  directory \<open>/sys/class/drm\<close> cannot be read; the same with the directory readable and
  holding a card without the memory file.
\<close>

definition amd_host_no_drm :: host where
  "amd_host_no_drm =
     with_command ''lspci'' ''01:00.0 VGA compatible controller: AMD Radeon RX 580\<newline>'' bare_host"

definition amd_host_no_vram_file :: host where
  "amd_host_no_vram_file =
     amd_host_no_drm\<lparr>ReadDir := (\<lambda>p. if p = ''/sys/class/drm'' then Some [''card0'', ''card0-DP-1'', ''version''] else None)\<rparr>"

text \<open>An NVIDIA card that the PCI listing shows without a memory size, on a machine without \<open>nvidia-smi\<close>.\<close>

definition nvidia_host_no_smi :: host where
  "nvidia_host_no_smi =
     with_command ''lspci'' ''01:00.0 VGA compatible controller: NVIDIA GeForce RTX 3070\<newline>'' bare_host"

text \<open>The profile of the validation example, with the fields the example leaves open.\<close>

definition low_profile :: "bool \<Rightarrow> string \<Rightarrow> string \<Rightarrow> SystemInfo" where
  "low_profile rocm model kver =
     \<lparr>HasDocker = False, HasROCm = rocm, HasNVIDIA = False, HasAMDGPU = False,
      GPUMemory = 4096, SystemMemory = 4096, GPUModel = model, GPUType = ''unknown'',
      KernelVersion = kver\<rparr>"

section \<open>Properties of the client\<close>

declare pull_loop.simps [simp del]

lemma pull_loop_Nil: "pull_loop cb [] s = (Inr (), s, [])"
  by (simp add: pull_loop.simps)

lemma pull_loop_Failure:
  "pull_loop cb (Failure m # rest) s = (Inl (DecodeError ''progress'' (Malformed m)), s, Failure m # rest)"
  by (simp add: pull_loop.simps)

lemma pull_loop_Value:
  "pull_loop cb (Value p # rest) s =
     (if Status p = ''success'' then (Inr (), deliver cb [p] s, rest)
      else pull_loop cb rest (deliver cb [p] s))"
  by (simp add: pull_loop.simps [of cb "Value p # rest"] deliver_def Let_def split: option.splits)

lemma deliver_append: "deliver cb (xs @ ys) s = deliver cb ys (deliver cb xs s)"
  by (simp add: deliver_def split: option.splits)

lemma deliver_Nil: "deliver cb [] s = s"
  by (simp add: deliver_def split: option.splits)

lemma pull_loop_skip:
  "\<forall>e \<in> set pre. Status e \<noteq> ''success'' \<Longrightarrow>
   pull_loop cb (map Value pre @ rest) s = pull_loop cb rest (deliver cb pre s)"
proof (induction pre arbitrary: s)
  case Nil
  then show ?case by (simp add: deliver_Nil)
next
  case (Cons p pre)
  have "deliver cb (p # pre) s = deliver cb pre (deliver cb [p] s)"
    using deliver_append [of cb "[p]" pre s] by simp
  with Cons show ?case by (simp add: pull_loop_Value)
qed

lemma pull_loop_success:
  assumes "\<exists>e \<in> set events. Status e = ''success''"
  shows "pull_loop cb (map Value events @ rest) s =
           (Inr (), deliver cb (upto_success events) s,
            map Value (drop (length (upto_success events)) events) @ rest)"
proof -
  let ?P = "\<lambda>e. Status e \<noteq> ''success''"
  let ?pre = "takeWhile ?P events"
  from assms have ne: "dropWhile ?P events \<noteq> []" by auto
  then obtain e post where dw: "dropWhile ?P events = e # post" by (cases "dropWhile ?P events") auto
  have e: "Status e = ''success''" using hd_dropWhile [of ?P events] ne dw by auto
  have ev: "events = ?pre @ e # post" using takeWhile_dropWhile_id [of ?P events] dw by simp
  have up: "upto_success events = ?pre @ [e]" by (simp add: upto_success_def dw)
  have pre: "\<forall>x \<in> set ?pre. Status x \<noteq> ''success''" by (auto dest: set_takeWhileD)
  have "pull_loop cb (map Value events @ rest) s
        = pull_loop cb (map Value ?pre @ (Value e # map Value post @ rest)) s"
    by (subst ev) simp
  also have "\<dots> = pull_loop cb (Value e # map Value post @ rest) (deliver cb ?pre s)"
    using pre by (rule pull_loop_skip)
  also have "\<dots> = (Inr (), deliver cb [e] (deliver cb ?pre s), map Value post @ rest)"
    using e by (simp add: pull_loop_Value)
  finally have 1: "pull_loop cb (map Value events @ rest) s
     = (Inr (), deliver cb [e] (deliver cb ?pre s), map Value post @ rest)" .
  have "drop (length ?pre + 1) (?pre @ e # post) = post" by simp
  then have 2: "drop (length (upto_success events)) events = post"
    using ev up by simp
  show ?thesis unfolding 1 2 by (simp add: up deliver_append)
qed

lemma PullModel_resp:
  "post c w ''/api/pull'' (JSON_PullRequest \<lparr>pr_Name = name, pr_Stream = True\<rparr>) = Inr resp \<Longrightarrow>
   PullModel c w name cb s = pull_loop cb (Body resp) s"
  by (simp add: PullModel_def Marshal_PullRequest_def)

text \<open>
  Claim C3. When the events that the body decodes to contain one with status \<open>success\<close>,
  \<open>PullModel\<close> returns without error, the sink has received exactly the events up to the
  first such event, that event included, and everything after it is left in the body,
  not decoded.
\<close>

theorem PullModel_delivers_prefix_to_first_success:
  assumes "post c w ''/api/pull'' (JSON_PullRequest \<lparr>pr_Name = name, pr_Stream = True\<rparr>) = Inr resp"
    and "Body resp = map Value events @ rest"
    and "\<exists>e \<in> set events. Status e = ''success''"
  shows "PullModel c w name (Some f) s =
           (Inr (), fold f (upto_success events) s,
            map Value (drop (length (upto_success events)) events) @ rest)"
  using PullModel_resp [OF assms(1), of "Some f" s] pull_loop_success [OF assms(3), of "Some f" rest s] assms(2)
  by (simp add: deliver_def)

text \<open>
  Claim C4. When no event read so far has status \<open>success\<close>: at the end of the stream
  \<open>PullModel\<close> returns without error, all events delivered; at a chunk that fails to
  decode it returns the decode error at once, and the sink has received only the events
  before the failure.
\<close>

theorem PullModel_eof_and_decode_error:
  assumes "post c w ''/api/pull'' (JSON_PullRequest \<lparr>pr_Name = name, pr_Stream = True\<rparr>) = Inr resp"
    and "\<forall>e \<in> set events. Status e \<noteq> ''success''"
  shows "(Body resp = map Value events \<longrightarrow>
            PullModel c w name cb s = (Inr (), deliver cb events s, []))
       \<and> (Body resp = map Value events @ Failure m # rest \<longrightarrow>
            PullModel c w name cb s =
              (Inl (DecodeError ''progress'' (Malformed m)), deliver cb events s, Failure m # rest))"
  using PullModel_resp [OF assms(1), of cb s] pull_loop_skip [OF assms(2), of cb "[]" s]
    pull_loop_skip [OF assms(2), of cb "Failure m # rest" s]
  by (simp add: pull_loop_Nil pull_loop_Failure)

lemma post_pull_server:
  "post example_client (pull_server body) path p = Inr \<lparr>StatusCode = 200, Body = body\<rparr>"
  by (simp add: post_def NewRequestWithContext_def pull_server_def)

theorem PullModel_delivers_prefix_to_first_success_witness:
  "PullModel example_client
     (pull_server [Value (ev ''pulling manifest''), Value (ev ''success''), Value (ev ''verifying'')])
     ''llama3.1:8b'' (Some (\<lambda>p log. log @ [p])) []
   = (Inr (), [ev ''pulling manifest'', ev ''success''], [Value (ev ''verifying'')])"
proof -
  let ?events = "[ev ''pulling manifest'', ev ''success'', ev ''verifying'']"
  let ?body = "[Value (ev ''pulling manifest''), Value (ev ''success''), Value (ev ''verifying'')]"
  have b: "Body \<lparr>StatusCode = 200, Body = ?body\<rparr> = map Value ?events @ []" by simp
  have s: "\<exists>e \<in> set ?events. Status e = ''success''" by (simp add: ev_def)
  have u: "upto_success ?events = [ev ''pulling manifest'', ev ''success'']"
    by (simp add: upto_success_def ev_def)
  from PullModel_delivers_prefix_to_first_success [OF post_pull_server b s, of "''llama3.1:8b''" "\<lambda>p log. log @ [p]" "[]"]
  show ?thesis unfolding u by simp
qed

theorem PullModel_eof_and_decode_error_witness:
  "PullModel example_client (pull_server [Value (ev ''pulling manifest''), Value (ev ''downloading'')])
     ''llama3.1:8b'' (Some (\<lambda>p log. log @ [p])) []
   = (Inr (), [ev ''pulling manifest'', ev ''downloading''], [])
 \<and> PullModel example_client
     (pull_server [Value (ev ''pulling manifest''), Failure ''unexpected EOF'', Value (ev ''success'')])
     ''llama3.1:8b'' (Some (\<lambda>p log. log @ [p])) []
   = (Inl (DecodeError ''progress'' (Malformed ''unexpected EOF'')), [ev ''pulling manifest''],
      [Failure ''unexpected EOF'', Value (ev ''success'')])"
proof -
  let ?e1 = "[ev ''pulling manifest'', ev ''downloading'']"
  let ?e2 = "[ev ''pulling manifest'']"
  have n1: "\<forall>e \<in> set ?e1. Status e \<noteq> ''success''" by (simp add: ev_def)
  have n2: "\<forall>e \<in> set ?e2. Status e \<noteq> ''success''" by (simp add: ev_def)
  from PullModel_eof_and_decode_error [OF post_pull_server n1,
      of "[Value (ev ''pulling manifest''), Value (ev ''downloading'')]" "''llama3.1:8b''"
         "Some (\<lambda>p log. log @ [p])" "[]"]
  have 1: "PullModel example_client (pull_server [Value (ev ''pulling manifest''), Value (ev ''downloading'')])
     ''llama3.1:8b'' (Some (\<lambda>p log. log @ [p])) []
   = (Inr (), [ev ''pulling manifest'', ev ''downloading''], [])"
    by (simp add: deliver_def)
  from PullModel_eof_and_decode_error [OF post_pull_server n2,
      of "[Value (ev ''pulling manifest''), Failure ''unexpected EOF'', Value (ev ''success'')]"
         "''llama3.1:8b''" "Some (\<lambda>p log. log @ [p])" "[]" "''unexpected EOF''" "[Value (ev ''success'')]"]
  have 2: "PullModel example_client
     (pull_server [Value (ev ''pulling manifest''), Failure ''unexpected EOF'', Value (ev ''success'')])
     ''llama3.1:8b'' (Some (\<lambda>p log. log @ [p])) []
   = (Inl (DecodeError ''progress'' (Malformed ''unexpected EOF'')), [ev ''pulling manifest''],
      [Failure ''unexpected EOF'', Value (ev ''success'')])"
    by (simp add: deliver_def)
  from 1 2 show ?thesis by simp
qed

text \<open>
  Claim C2, as the code has it. The one request of \<open>DeleteModel\<close> is a \<open>DELETE\<close> of
  \<open>/api/delete\<close> with the JSON of the name as body; the result is success exactly when
  the status of the response is 200, and \<open>NonSuccessStatus\<close> with that status otherwise.
\<close>

theorem DeleteModel_sends_DELETE:
  assumes "ParseURL w (baseURL c @ ''/api/delete'')"
  shows "DeleteModel c w name =
     (case Do w \<lparr>Method = ''DELETE'', URL = baseURL c @ ''/api/delete'',
                 Header = [(''Content-Type'', ''application/json'')],
                 ReqBody = Some (JSON_DeleteRequest \<lparr>dr_Name = name\<rparr>)\<rparr> of
        Inl err \<Rightarrow> Inl err
      | Inr resp \<Rightarrow>
          if StatusCode resp = 200 then Inr ()
          else Inl (NonSuccessStatus ''delete request'' (StatusCode resp)))"
  using assms
  by (simp add: DeleteModel_def Marshal_DeleteRequest_def delete_def NewRequestWithContext_def
      Header_Set_def split: sum.splits)

theorem DeleteModel_sends_DELETE_witness:
  "DeleteModel example_client post_only_server ''llama3.1:8b'' =
     Inl (NonSuccessStatus ''delete request'' 405)"
proof -
  have p: "ParseURL post_only_server (baseURL example_client @ ''/api/delete'')"
    by (simp add: post_only_server_def)
  from DeleteModel_sends_DELETE [OF p, of "''llama3.1:8b''"]
  show ?thesis by (simp add: post_only_server_def)
qed

text \<open>
  Claim C2 as stated fails: a server that accepts \<open>POST /api/delete\<close> with status 200 and
  answers 405 to every other method makes \<open>DeleteModel\<close> fail, so the request was not a
  \<open>POST\<close>.
\<close>

theorem DeleteModel_POST_counterexample:
  "Do post_only_server
      \<lparr>Method = ''POST'', URL = ''http://localhost:11434/api/delete'',
       Header = [(''Content-Type'', ''application/json'')],
       ReqBody = Some (JSON_DeleteRequest \<lparr>dr_Name = ''llama3.1:8b''\<rparr>)\<rparr>
     = Inr \<lparr>StatusCode = 200, Body = []\<rparr>
   \<and> DeleteModel example_client post_only_server ''llama3.1:8b''
     = Inl (NonSuccessStatus ''delete request'' 405)"
  by (simp add: post_only_server_def DeleteModel_def Marshal_DeleteRequest_def delete_def
      NewRequestWithContext_def Header_Set_def example_client_def)

lemma get_with_status:
  "get c (with_status n w) path = map_sum id (\<lambda>r. r\<lparr>StatusCode := n\<rparr>) (get c w path)"
  by (simp add: get_def NewRequestWithContext_def with_status_def)

lemma post_with_status:
  "post c (with_status n w) path b = map_sum id (\<lambda>r. r\<lparr>StatusCode := n\<rparr>) (post c w path b)"
  by (simp add: post_def NewRequestWithContext_def with_status_def)

lemma ListModels_with_status: "ListModels c (with_status n w) = ListModels c w"
  by (cases "get c w ''/api/tags''") (simp_all add: ListModels_def get_with_status)

lemma Generate_with_status:
  "Generate c (with_status n w) model prompt options = Generate c w model prompt options"
  by (simp add: Generate_def post_with_status split: sum.splits)

text \<open>
  Claim C10. \<open>ListModels\<close> and \<open>Generate\<close> return the same result whatever the status code
  of the response is, and they succeed as soon as the body decodes; \<open>Health\<close> and
  \<open>DeleteModel\<close> fail on every status other than 200.
\<close>

theorem status_code_not_inspected:
  "ListModels c (with_status n w) = ListModels c w
 \<and> Generate c (with_status n w') model prompt options = Generate c w' model prompt options
 \<and> (get c w ''/api/tags'' = Inr resp \<and> Body resp = Value v # rest
        \<longrightarrow> ListModels c w = Inr (Models v))
 \<and> (Unencodable \<notin> snd ` set options
      \<and> post c w' ''/api/generate''
            (JSON_GenerateRequest \<lparr>gr_Model = model, gr_Prompt = prompt, gr_Stream = False,
               gr_Options = options\<rparr>) = Inr resp'
      \<and> Body resp' = Value g # rest'
        \<longrightarrow> Generate c w' model prompt options = Inr g)
 \<and> (get c wh ''/api/version'' = Inr rh \<and> StatusCode rh \<noteq> 200
        \<longrightarrow> Health c wh = Inl (NonSuccessStatus ''health check'' (StatusCode rh)))
 \<and> (delete c wd ''/api/delete'' (JSON_DeleteRequest \<lparr>dr_Name = name\<rparr>) = Inr rd
      \<and> StatusCode rd \<noteq> 200
        \<longrightarrow> DeleteModel c wd name = Inl (NonSuccessStatus ''delete request'' (StatusCode rd)))"
proof (intro conjI impI)
  show "ListModels c (with_status n w) = ListModels c w"
    by (rule ListModels_with_status)
  show "Generate c (with_status n w') model prompt options = Generate c w' model prompt options"
    by (rule Generate_with_status)
  show "ListModels c w = Inr (Models v)"
    if "get c w ''/api/tags'' = Inr resp \<and> Body resp = Value v # rest"
    using that by (simp add: ListModels_def)
  show "Generate c w' model prompt options = Inr g"
    if "Unencodable \<notin> snd ` set options
      \<and> post c w' ''/api/generate''
            (JSON_GenerateRequest \<lparr>gr_Model = model, gr_Prompt = prompt, gr_Stream = False,
               gr_Options = options\<rparr>) = Inr resp'
      \<and> Body resp' = Value g # rest'"
    using that by (simp add: Generate_def Marshal_GenerateRequest_def)
  show "Health c wh = Inl (NonSuccessStatus ''health check'' (StatusCode rh))"
    if "get c wh ''/api/version'' = Inr rh \<and> StatusCode rh \<noteq> 200"
    using that by (simp add: Health_def)
  show "DeleteModel c wd name = Inl (NonSuccessStatus ''delete request'' (StatusCode rd))"
    if "delete c wd ''/api/delete'' (JSON_DeleteRequest \<lparr>dr_Name = name\<rparr>) = Inr rd
      \<and> StatusCode rd \<noteq> 200"
    using that by (simp add: DeleteModel_def Marshal_DeleteRequest_def)
qed

theorem status_code_not_inspected_witness:
  "ListModels example_client (failing_server [Value \<lparr>Models = []\<rparr>]) = Inr []
 \<and> Health example_client (failing_server [Value \<lparr>Models = []\<rparr>])
       = Inl (NonSuccessStatus ''health check'' 500)"
proof -
  let ?w = "failing_server [Value \<lparr>Models = []\<rparr>]"
  let ?r = "\<lparr>StatusCode = 500, Body = [Value \<lparr>Models = []\<rparr>]\<rparr>"
  have g: "get example_client ?w path = Inr ?r" for path
    by (simp add: get_def NewRequestWithContext_def failing_server_def)
  have 1: "get example_client ?w ''/api/tags'' = Inr ?r \<and> Body ?r = Value \<lparr>Models = []\<rparr> # []"
    using g by simp
  have 2: "get example_client ?w ''/api/version'' = Inr ?r \<and> StatusCode ?r \<noteq> 200"
    using g by simp
  from status_code_not_inspected [where c = example_client and n = 500 and w = ?w and resp = ?r
      and v = "\<lparr>Models = []\<rparr>" and rest = "[]" and wh = ?w and rh = ?r
      and w' = "failing_server []" and model = "[]" and prompt = "[]" and options = "[]"
      and resp' = "\<lparr>StatusCode = 500, Body = []\<rparr>"
      and g = "\<lparr>g_Model = [], g_Response = [], g_Done = True, g_CreatedAt = []\<rparr>"
      and rest' = "[]" and wd = ?w and name = "[]" and rd = "\<lparr>StatusCode = 200, Body = []\<rparr>"]
    1 2
  show ?thesis by simp
qed

section \<open>Properties of the metrics sampler\<close>

lemmas string_eval =
  TrimSpace_def ends_space_def space_width_def ParseInt_def ParseUint_def digit_val_def
  is_digit_def Fields_def HasPrefix_def Split_def dropCR_def to_lower_def Atoi_def

lemma GetPerformanceMetrics_gpu:
  "(GPUUsage (GetPerformanceMetrics h), GPUMemoryUsedMB (GetPerformanceMetrics h),
    GPUMemoryTotalMB (GetPerformanceMetrics h)) =
   (case getAMDGPUUsage h of
      (gpuUsage, gpuMemUsed, gpuMemTotal) \<Rightarrow>
        if ge_zero gpuUsage then (gpuUsage, gpuMemUsed, gpuMemTotal) else (Finite (- 1), 0, 0))"
  by (simp add: GetPerformanceMetrics_def Let_def split: sum.splits prod.splits)

lemma getAMDGPUUsage_no_total:
  "getAMDGPUMemory h ''/sys/class/drm/card0/device/mem_info_vram_total'' \<le> 0 \<Longrightarrow>
   getAMDGPUUsage h = (Finite (- 1), 0, 0)"
  by (simp add: getAMDGPUUsage_def Let_def)

text \<open>
  Claim C7. When the VRAM-total file is absent or unreadable, does not parse, or reads
  as zero (or less), the sample has GPU usage \<open>-1\<close> and both GPU memory fields 0, whatever the
  busy-percent files hold.
\<close>

theorem gpu_memory_sentinel:
  assumes "ReadFile h ''/sys/class/drm/card0/device/mem_info_vram_total'' = None
         \<or> (\<exists>data. ReadFile h ''/sys/class/drm/card0/device/mem_info_vram_total'' = Some data
                \<and> (\<not> snd (ParseInt (TrimSpace data)) \<or> fst (ParseInt (TrimSpace data)) \<le> 0))"
  shows "GPUUsage (GetPerformanceMetrics h) = Finite (- 1)
       \<and> GPUMemoryUsedMB (GetPerformanceMetrics h) = 0
       \<and> GPUMemoryTotalMB (GetPerformanceMetrics h) = 0"
proof -
  from assms have "getAMDGPUMemory h ''/sys/class/drm/card0/device/mem_info_vram_total'' \<le> 0"
    by (auto simp: getAMDGPUMemory_def split: prod.splits)
  then have "getAMDGPUUsage h = (Finite (- 1), 0, 0)"
    by (rule getAMDGPUUsage_no_total)
  with GetPerformanceMetrics_gpu [of h] show ?thesis by simp
qed

lemma bare_ReadFile: "ReadFile bare_host p = None"
  by (simp add: bare_host_def)

theorem gpu_memory_sentinel_witness:
  "getAMDGPUUsagePercent busy_only_host = Finite 57
 \<and> GPUUsage (GetPerformanceMetrics busy_only_host) = Finite (- 1)
 \<and> GPUMemoryUsedMB (GetPerformanceMetrics busy_only_host) = 0
 \<and> GPUMemoryTotalMB (GetPerformanceMetrics busy_only_host) = 0"
proof -
  have a: "ReadFile busy_only_host ''/sys/class/drm/card0/device/mem_info_vram_total'' = None"
    by (simp add: busy_only_host_def with_files_def bare_host_def)
  have b: "getAMDGPUUsagePercent busy_only_host = Finite 57"
    by (simp add: getAMDGPUUsagePercent_def busy_only_host_def with_files_def bare_host_def string_eval)
  from gpu_memory_sentinel [of busy_only_host] a b show ?thesis by simp
qed

text \<open>
  Claim C1 at a sample with 8 GiB of VRAM in total, 1 GiB in use and no busy-percent
  file: \<open>getAMDGPUUsage\<close> returns the two memory figures in MB with usage \<open>-1\<close>, and
  \<open>GetPerformanceMetrics\<close>, which copies the three values only when the usage is not
  negative, reports both memory fields as 0.
\<close>

theorem memory_dropped_without_busy_percent:
  "getAMDGPUUsage vram_only_host = (Finite (- 1), 1024, 8192)
 \<and> GPUUsage (GetPerformanceMetrics vram_only_host) = Finite (- 1)
 \<and> GPUMemoryUsedMB (GetPerformanceMetrics vram_only_host) = 0
 \<and> GPUMemoryTotalMB (GetPerformanceMetrics vram_only_host) = 0"
proof -
  have t: "getAMDGPUMemory vram_only_host ''/sys/class/drm/card0/device/mem_info_vram_total'' = 8589934592"
    by (simp add: getAMDGPUMemory_def vram_only_host_def with_files_def string_eval)
  have u: "getAMDGPUMemory vram_only_host ''/sys/class/drm/card0/device/mem_info_vram_used'' = 1073741824"
    by (simp add: getAMDGPUMemory_def vram_only_host_def with_files_def string_eval)
  have p: "getAMDGPUUsagePercent vram_only_host = Finite (- 1)"
    by (simp add: getAMDGPUUsagePercent_def vram_only_host_def with_files_def bare_host_def)
  have g: "getAMDGPUUsage vram_only_host = (Finite (- 1), 1024, 8192)"
    by (simp add: getAMDGPUUsage_def t u p quo_def)
  with GetPerformanceMetrics_gpu [of vram_only_host] show ?thesis by simp
qed

subsection \<open>Rounding to float64\<close>

declare bits.simps [simp del]

lemma bits_0 [simp]: "bits 0 = 0"
  by (subst bits.simps) simp

lemma bits_pos: "0 < n \<Longrightarrow> bits n = Suc (bits (n div 2))"
  by (subst bits.simps) simp

lemma bits_numeral [simp]: "bits (numeral k) = Suc (bits (numeral k div 2))"
  by (rule bits_pos) simp

lemma bits_1 [simp]: "bits (Suc 0) = Suc 0"
  by (simp add: bits_pos)

lemma bits_bounds: "0 < n \<Longrightarrow> 2 ^ (bits n - 1) \<le> n \<and> n < 2 ^ bits n"
proof (induction n rule: bits.induct)
  case (1 n)
  show ?case
  proof (cases "n div 2 = 0")
    case True
    with "1.prems" have "n = 1" by (simp add: div_eq_0_iff) 
    then show ?thesis by (simp add: bits_pos)
  next
    case False
    then have pos: "0 < n div 2" by simp
    from "1.IH" "1.prems" pos
    have lo: "2 ^ (bits (n div 2) - 1) \<le> n div 2" and hi: "n div 2 < 2 ^ bits (n div 2)"
      by simp_all
    have b: "bits n = Suc (bits (n div 2))" using "1.prems" by (rule bits_pos)
    have bp: "0 < bits (n div 2)" using pos by (simp add: bits_pos)
    then have "(2::nat) ^ bits (n div 2) = 2 * 2 ^ (bits (n div 2) - 1)"
      by (cases "bits (n div 2)") simp_all
    with lo have "(2::nat) ^ bits (n div 2) \<le> 2 * (n div 2)" by simp
    also have "\<dots> \<le> n" by simp
    finally have 1: "2 ^ (bits n - 1) \<le> n" by (simp add: b)
    from hi have "n div 2 + 1 \<le> 2 ^ bits (n div 2)" by simp
    then have "2 * (n div 2) + 2 \<le> 2 * 2 ^ bits (n div 2)" by simp
    moreover have "n < 2 * (n div 2) + 2" by presburger
    ultimately have 2: "n < 2 ^ bits n" by (simp add: b)
    from 1 2 show ?thesis ..
  qed
qed

lemma round_half_even_of_int [simp]: "round_half_even (of_int m) = m"
  by (simp add: round_half_even_def)

lemma f64_of_nat_exact:
  assumes "n \<le> 2 ^ 53"
  shows "f64 (of_nat n) = Finite (of_nat n)"
proof (cases "n = 0")
  case True
  then show ?thesis by (simp add: f64_def)
next
  case False
  then have pos: "0 < n" by simp
  let ?b = "bits n"
  from bits_bounds [OF pos] have lo: "2 ^ (?b - 1) \<le> n" and hi: "n < 2 ^ ?b" by simp_all
  have bpos: "0 < ?b" using pos by (simp add: bits_pos)
  from lo assms have le: "(2::nat) ^ (?b - 1) \<le> 2 ^ 53" by (rule order_trans)
  have b54: "?b - 1 \<le> 53" by (rule power_le_imp_le_exp [OF _ le]) simp
  have ex: "exponent (of_nat n) = int ?b - 1"
    using pos by (simp add: exponent_def)
  have small: "(of_nat n :: real) < 2 ^ 1024"
  proof -
    have "(of_nat n :: real) \<le> of_nat (2 ^ 53)" using assms by (simp only: of_nat_le_iff)
    also have "\<dots> < 2 ^ 1024" by simp
    finally show ?thesis .
  qed
  have r: "of_int (round_half_even (of_nat n / pow2 (int ?b - 1 - 52))) * pow2 (int ?b - 1 - 52)
           = (of_nat n :: real)"
  proof (cases "?b - 1 \<le> 52")
    case True
    then have k: "pow2 (int ?b - 1 - 52) = 1 / 2 ^ (53 - ?b)"
      using bpos by (cases "int ?b - 1 - 52 = 0") (auto simp: pow2_def nat_diff_distrib')
    have "(of_nat n :: real) / (1 / 2 ^ (53 - ?b)) = of_int (int (n * 2 ^ (53 - ?b)))"
      by simp
    then show ?thesis by (simp only: k round_half_even_of_int) simp
  next
    case False
    with b54 have b: "?b = 54" using bpos by simp
    with lo assms have n: "n = 2 ^ 53" by simp
    have "(of_nat n :: real) / 2 = of_int (2 ^ 52)" by (simp add: n)
    then show ?thesis by (simp add: b pow2_def n round_half_even_def)
  qed
  have m: "max (int ?b - 1) (- 1022) = int ?b - 1" using bpos by simp
  have ab: "\<bar>of_nat n :: real\<bar> = of_nat n" by simp
  show ?thesis
    unfolding f64_def ab ex m Let_def r using pos small by simp
qed


lemma fdiv_Finite: "b \<noteq> 0 \<Longrightarrow> fdiv (Finite a) (Finite b) = f64 (a / b)"
  by simp

subsection \<open>The usage formula\<close>

lemma cpu_loop_sum:
  "map ParseUint fs = map Some cs \<Longrightarrow>
   cpu_loop fs i idle tot =
     Inr (if i \<le> 4 \<and> 4 < i + length cs then of_nat (cs ! (4 - i)) else idle,
          tot + of_nat (sum_list cs))"
proof (induction fs arbitrary: cs i idle tot)
  case Nil
  then show ?case by auto
next
  case (Cons f fs)
  then obtain c cs' where cs: "cs = c # cs'" and f: "ParseUint f = Some c"
    and rest: "map ParseUint fs = map Some cs'"
    by (cases cs) auto
  show ?case
    unfolding cs using f Cons.IH [OF rest, of "i + 1"]
    by (auto simp: nth_Cons' algebra_simps)
qed

lemma nth_le_sum_list: "i < length cs \<Longrightarrow> (cs ! i :: nat) \<le> sum_list cs"
  by (induction cs arbitrary: i) (auto simp: nth_Cons' trans_le_add2)

lemma getCPUUsage_float:
  assumes "Open h ''/proc/stat'' = Some content"
    and "ScanLines [] content = line # others"
    and "Fields line = ''cpu'' # fs"
    and "map ParseUint fs = map Some cs"
    and "7 \<le> length cs"
    and "sum_list cs < 2 ^ 64"
  shows "getCPUUsage h = Inr (float_usage cs)"
proof -
  have len: "length fs = length cs"
    using assms(4) by (metis length_map)
  let ?S = "sum_list cs" and ?I = "cs ! 3"
  have I: "?I \<le> ?S" using assms(5) by (intro nth_le_sum_list) simp
  have loop: "cpu_loop fs (Suc 0) 0 0 = Inr (of_nat ?I, of_nat ?S)"
    using cpu_loop_sum [OF assms(4), of "Suc 0" 0 0] assms(5) by simp
  have uS: "unat (of_nat ?S :: 64 word) = ?S"
    using assms(6) by (simp add: unat_of_nat)
  have "(of_nat ?S :: 64 word) - of_nat ?I = of_nat (?S - ?I)"
    using I by simp
  moreover have "?S - ?I < 2 ^ 64" using assms(6) by simp
  ultimately have uD: "unat ((of_nat ?S :: 64 word) - of_nat ?I) = ?S - ?I"
    by (simp add: unat_of_nat)
  have code: "getCPUUsage h =
      (if (of_nat ?S :: 64 word) = 0 then Inr (Finite 0)
       else Inr (fmul (fdiv (float64_of_uint64 ((of_nat ?S :: 64 word) - of_nat ?I))
                            (float64_of_uint64 (of_nat ?S)))
                      (Finite 100)))"
    using assms(5) by (simp add: getCPUUsage_def assms(1,2,3) len loop)
  show ?thesis
  proof (cases "?S = 0")
    case True
    have "(of_nat ?S :: 64 word) = 0" by (subst True) simp
    with True show ?thesis by (simp only: code float_usage_def if_True simp_thms)
  next
    case False
    have "(of_nat ?S :: 64 word) \<noteq> 0"
    proof
      assume "(of_nat ?S :: 64 word) = 0"
      then have "unat (of_nat ?S :: 64 word) = 0" by simp
      with uS False show False by simp
    qed
    then show ?thesis
      using False by (simp only: code float_usage_def float64_of_uint64_def if_False uS uD simp_thms)
  qed
qed

text \<open>In exact arithmetic the formula does not change when every counter is scaled.\<close>

lemma exact_usage_scale:
  assumes "0 < k" and "3 < length cs"
  shows "exact_usage (map (\<lambda>c. k * c) cs) = exact_usage cs"
proof -
  have s: "sum_list (map (\<lambda>c. k * c) cs) = k * sum_list cs"
    by (simp add: sum_list_const_mult)
  have n: "map (\<lambda>c. k * c) cs ! 3 = k * (cs ! 3)"
    using assms(2) by simp
  have "(of_nat (k * sum_list cs) - of_nat (k * (cs ! 3))) / (of_nat (k * sum_list cs) :: real)
        = (of_nat (sum_list cs) - of_nat (cs ! 3)) / of_nat (sum_list cs)"
    using assms(1) by (simp add: right_diff_distrib [symmetric])
  then show ?thesis
    using assms(1) by (simp add: exact_usage_def s n)
qed

text \<open>
  Up to \<open>2^53\<close> the two conversions are exact, so the \<open>float64\<close> usage is the exact ratio
  rounded once, then multiplied by 100 and rounded again.
\<close>

lemma float_usage_small:
  assumes "sum_list cs \<le> 2 ^ 53" and "sum_list cs \<noteq> 0"
  shows "float_usage cs =
           fmul (f64 (of_nat (sum_list cs - cs ! 3) / of_nat (sum_list cs))) (Finite 100)"
proof -
  have "sum_list cs - cs ! 3 \<le> 2 ^ 53" using assms(1) by simp
  then have d: "f64 (of_nat (sum_list cs - cs ! 3)) = Finite (of_nat (sum_list cs - cs ! 3))"
    by (rule f64_of_nat_exact)
  have t: "f64 (of_nat (sum_list cs)) = Finite (of_nat (sum_list cs))"
    using assms(1) by (rule f64_of_nat_exact)
  have nz: "(of_nat (sum_list cs) :: real) \<noteq> 0"
    using assms(2) by (simp only: of_nat_eq_0_iff) simp
  have q: "fdiv (Finite (of_nat (sum_list cs - cs ! 3))) (Finite (of_nat (sum_list cs)))
           = f64 (of_nat (sum_list cs - cs ! 3) / of_nat (sum_list cs))"
    using nz by (rule fdiv_Finite)
  show ?thesis
    using assms(2) by (simp only: float_usage_def d t if_False q simp_thms)
qed

lemma float_usage_scale:
  assumes "0 < k" and "3 < length cs" and "k * sum_list cs \<le> 2 ^ 53"
  shows "float_usage (map (\<lambda>c. k * c) cs) = float_usage cs"
proof (cases "sum_list cs = 0")
  case True
  have "sum_list (map (\<lambda>c. k * c) cs) = k * sum_list cs"
    by (simp add: sum_list_const_mult)
  also have "\<dots> = 0" by (subst True) simp
  finally show ?thesis using True by (simp only: float_usage_def if_True simp_thms)
next
  case False
  let ?S = "sum_list cs" and ?I = "cs ! 3"
  have s: "sum_list (map (\<lambda>c. k * c) cs) = k * ?S"
    by (simp add: sum_list_const_mult)
  have n: "map (\<lambda>c. k * c) cs ! 3 = k * ?I"
    using assms(2) by simp
  have kS: "k * ?S \<noteq> 0" using assms(1) False by simp
  have "?S \<le> k * ?S" using assms(1) by (cases k) simp_all
  then have small: "?S \<le> 2 ^ 53" using assms(3) by (rule order_trans)
  have "float_usage (map (\<lambda>c. k * c) cs)
        = fmul (f64 (of_nat (k * ?S - k * ?I) / of_nat (k * ?S))) (Finite 100)"
    using float_usage_small [of "map (\<lambda>c. k * c) cs"] assms(3) kS by (simp only: s n) simp
  also have "(of_nat (k * ?S - k * ?I) :: real) / of_nat (k * ?S) = of_nat (?S - ?I) / of_nat ?S"
    using assms(1) by (simp add: diff_mult_distrib2 [symmetric])
  also have "fmul (f64 (of_nat (?S - ?I) / of_nat ?S)) (Finite 100) = float_usage cs"
    using float_usage_small [OF small False] by simp
  finally show ?thesis .
qed

text \<open>
  Claim C8, as the code has it. For two stat files whose first lines are \<open>cpu\<close> followed
  by at least seven counters, those of the second being \<open>k\<close> times those of the first
  with \<open>k\<close> positive, the sampler returns the same usage, provided the scaled counters
  sum to at most \<open>2^53\<close>: up to there every integer is a \<open>float64\<close>, and the usage is
  the exact ratio, rounded.
\<close>

theorem cpu_usage_scale_invariant:
  assumes "Open h ''/proc/stat'' = Some content"
    and "ScanLines [] content = line # others"
    and "Fields line = ''cpu'' # fs"
    and "map ParseUint fs = map Some cs"
    and "7 \<le> length cs"
    and "Open h' ''/proc/stat'' = Some content'"
    and "ScanLines [] content' = line' # others'"
    and "Fields line' = ''cpu'' # fs'"
    and "map ParseUint fs' = map (\<lambda>c. Some (k * c)) cs"
    and "0 < k"
    and "k * sum_list cs \<le> 2 ^ 53"
  shows "getCPUUsage h' = getCPUUsage h"
proof -
  have s: "sum_list (map (\<lambda>c. k * c) cs) = k * sum_list cs"
    by (simp add: sum_list_const_mult)
  have "sum_list cs \<le> k * sum_list cs" using assms(10) by (cases k) simp_all
  then have small: "sum_list cs \<le> 2 ^ 53" using assms(11) by (rule order_trans)
  have big: "(2::nat) ^ 53 < 2 ^ 64" by simp
  have p': "map ParseUint fs' = map Some (map (\<lambda>c. k * c) cs)"
    using assms(9) by simp
  have "sum_list (map (\<lambda>c. k * c) cs) < 2 ^ 64"
    unfolding s using assms(11) big by (rule le_less_trans)
  then have "getCPUUsage h' = Inr (float_usage (map (\<lambda>c. k * c) cs))"
    using assms(5) by (intro getCPUUsage_float [OF assms(6,7,8) p']) simp_all
  moreover have "sum_list cs < 2 ^ 64" using small big by (rule le_less_trans)
  then have "getCPUUsage h = Inr (float_usage cs)"
    using assms(5) by (intro getCPUUsage_float [OF assms(1,2,3,4)])
  moreover have "float_usage (map (\<lambda>c. k * c) cs) = float_usage cs"
    using assms(5,10,11) by (intro float_usage_scale) simp_all
  ultimately show ?thesis by simp
qed

lemma stat_host_file: "Open (stat_host l) ''/proc/stat'' = Some (l @ ''\<newline>'')"
  by (simp add: stat_host_def with_files_def)

lemma scan1: "ScanLines [] (''cpu  100 0 50 800 10 0 5 0 0 0'' @ ''\<newline>'') = ''cpu  100 0 50 800 10 0 5 0 0 0'' # []"
  by (simp add: dropCR_def)

lemma fields1: "Fields ''cpu  100 0 50 800 10 0 5 0 0 0'' = ''cpu'' # [''100'', ''0'', ''50'', ''800'', ''10'', ''0'', ''5'', ''0'', ''0'', ''0'']"
  by (simp add: string_eval)

lemma parse1: "map ParseUint [''100'', ''0'', ''50'', ''800'', ''10'', ''0'', ''5'', ''0'', ''0'', ''0''] = map Some [100, 0, 50, 800, 10, 0, 5, 0, 0, 0]"
  by (simp add: string_eval)

lemma scan3: "ScanLines [] (''cpu  300 0 150 2400 30 0 15 0 0 0'' @ ''\<newline>'') = ''cpu  300 0 150 2400 30 0 15 0 0 0'' # []"
  by (simp add: dropCR_def)

lemma fields3: "Fields ''cpu  300 0 150 2400 30 0 15 0 0 0'' = ''cpu'' # [''300'', ''0'', ''150'', ''2400'', ''30'', ''0'', ''15'', ''0'', ''0'', ''0'']"
  by (simp add: string_eval)

lemma parse3: "map ParseUint [''300'', ''0'', ''150'', ''2400'', ''30'', ''0'', ''15'', ''0'', ''0'', ''0''] = map (\<lambda>c. Some (3 * c)) [100, 0, 50, 800, 10, 0, 5, 0, 0, 0]"
  by (simp add: string_eval)

theorem cpu_usage_scale_invariant_witness:
  "getCPUUsage (stat_host ''cpu  300 0 150 2400 30 0 15 0 0 0'')
     = getCPUUsage (stat_host ''cpu  100 0 50 800 10 0 5 0 0 0'')"
  by (rule cpu_usage_scale_invariant [where k = 3 and cs = "[100, 0, 50, 800, 10, 0, 5, 0, 0, 0]",
        OF stat_host_file scan1 fields1 parse1 _ stat_host_file scan3 fields3 parse3])
    simp_all

lemmas float_eval =
  float64_of_uint64_def float64_of_int_def f64_def exponent_def round_half_even_def pow2_def Let_def

text \<open>
  Claim C8 as stated fails where the conversions round. The line \<open>cpu 1 1 1 1 0 0 0\<close> has
  usage 75. With every counter scaled by \<open>10^16 + 1\<close> the sum is \<open>40000000000000004\<close>, far
  below \<open>2^64\<close>; it becomes the \<open>float64\<close> \<open>40000000000000000\<close>, the difference
  \<open>30000000000000003\<close> becomes \<open>30000000000000004\<close>, and the usage is the next \<open>float64\<close>
  above 75.
\<close>

theorem cpu_usage_rounding_counterexample:
  "getCPUUsage (stat_host ''cpu 1 1 1 1 0 0 0'') = Inr (Finite 75)
 \<and> getCPUUsage
      (stat_host ''cpu 10000000000000001 10000000000000001 10000000000000001 10000000000000001 0 0 0'')
     = Inr (Finite (75 + 1 / 2 ^ 46))"
  by (simp add: getCPUUsage_def stat_host_file string_eval float_eval)

text \<open>
  From \<open>2^64\<close> on the sum of the counters wraps around as well: doubling the counters of
  the first line, whose usage is 100, gives a total of 2 with idle 2, and a usage of 0.
\<close>

lemma cpu_usage_wraps:
  "getCPUUsage (stat_host ''cpu 4611686018427387904 4611686018427387904 0 1 0 0 0'')
     = Inr (Finite 100)
 \<and> getCPUUsage (stat_host ''cpu 9223372036854775808 9223372036854775808 0 2 0 0 0'')
     = Inr (Finite 0)"
  by (simp add: getCPUUsage_def stat_host_file string_eval float_eval)

section \<open>Properties of the hardware prober\<close>

lemma GPUType_unknown_iff:
  "GetSystemInfo h = Inr info \<Longrightarrow>
   (GPUType info = ''unknown'') = (\<not> HasNVIDIA info \<and> \<not> HasAMDGPU info)"
  by (auto simp: GetSystemInfo_def Let_def split: prod.splits if_splits)

lemma violations_low_profile:
  "violations (low_profile rocm model kver) =
     [''Docker is not installed or not accessible'',
      ''No supported GPU detected (NVIDIA or AMD)'',
      ''GPU memory (4096MB) is below recommended minimum (6GB)'',
      ''System memory (4096MB) is below recommended minimum (8GB)'']"
  by (simp add: violations_def low_profile_def Sprint_d_def)

lemma violations_HasROCm: "violations (info\<lparr>HasROCm := b\<rparr>) = violations info"
  by (simp add: violations_def)

text \<open>
  Claim C5. For a profile without container runtime and without GPU vendor, with 4096
  MB of GPU memory and 4096 MB of system memory, whatever its other fields are, the
  check returns one error whose message lists four violations, one per line, in the
  order runtime, vendor, GPU memory, system memory, and logs no warning. The error
  never depends on the presence of ROCm, for any profile.
\<close>

theorem validateRequirements_four_violations:
  "validateRequirements h (low_profile rocm model kver) =
     ([], Some (RequirementsNotMet
        ''system requirements not met:\<newline>  - Docker is not installed or not accessible\<newline>  - No supported GPU detected (NVIDIA or AMD)\<newline>  - GPU memory (4096MB) is below recommended minimum (6GB)\<newline>  - System memory (4096MB) is below recommended minimum (8GB)''))
 \<and> snd (validateRequirements h (info\<lparr>HasROCm := b\<rparr>)) = snd (validateRequirements h info)"
proof
  have t: "GPUType (low_profile rocm model kver) = ''unknown''"
    by (simp add: low_profile_def)
  show "validateRequirements h (low_profile rocm model kver) =
     ([], Some (RequirementsNotMet
        ''system requirements not met:\<newline>  - Docker is not installed or not accessible\<newline>  - No supported GPU detected (NVIDIA or AMD)\<newline>  - GPU memory (4096MB) is below recommended minimum (6GB)\<newline>  - System memory (4096MB) is below recommended minimum (8GB)''))"
    by (simp add: validateRequirements_def violations_low_profile t)
  show "snd (validateRequirements h (info\<lparr>HasROCm := b\<rparr>)) = snd (validateRequirements h info)"
    by (simp add: validateRequirements_def violations_HasROCm Let_def)
qed

theorem validateRequirements_four_violations_witness:
  "snd (validateRequirements bare_host (low_profile False [] ''6.8.0'')) =
     Some (RequirementsNotMet
        ''system requirements not met:\<newline>  - Docker is not installed or not accessible\<newline>  - No supported GPU detected (NVIDIA or AMD)\<newline>  - GPU memory (4096MB) is below recommended minimum (6GB)\<newline>  - System memory (4096MB) is below recommended minimum (8GB)'')"
  using validateRequirements_four_violations
    [where h = bare_host and rocm = False and model = "[]" and kver = "''6.8.0''"
       and info = "low_profile False [] ''6.8.0''" and b = True]
  by simp

lemma lspci_amd:
  "Output amd_host_no_drm ''lspci'' [''-v''] =
     Some ''01:00.0 VGA compatible controller: AMD Radeon RX 580\<newline>''"
  by (simp add: amd_host_no_drm_def with_command_def)

lemma split_amd:
  "Split ''01:00.0 VGA compatible controller: AMD Radeon RX 580\<newline>'' [CHR 0x0A] =
     [''01:00.0 VGA compatible controller: AMD Radeon RX 580'', []]"
  by (simp add: Split_def HasPrefix_def)

lemma amd_line: "amdRegex ''01:00.0 VGA compatible controller: AMD Radeon RX 580''"
  by (simp add: amdRegex_def to_lower_def)

lemma nvidia_line: "\<not> nvidiaRegex ''01:00.0 VGA compatible controller: AMD Radeon RX 580''"
  by (simp add: nvidiaRegex_def to_lower_def)

lemma vga_line: "Contains ''01:00.0 VGA compatible controller: AMD Radeon RX 580'' ''VGA compatible controller''"
  by (simp add: HasPrefix_def)

lemma model_amd:
  "Split ''01:00.0 VGA compatible controller: AMD Radeon RX 580'' '': '' =
     [''01:00.0 VGA compatible controller'', ''AMD Radeon RX 580'']"
  by (simp add: Split_def HasPrefix_def)

lemma trim_model: "TrimSpace ''AMD Radeon RX 580'' = ''AMD Radeon RX 580''"
  by (simp add: TrimSpace_def ends_space_def space_width_def)

lemma trim_empty: "TrimSpace [] = []"
  by (simp add: TrimSpace_def)

lemma gpu_scan_amd:
  "gpu_scan amdRegex [''01:00.0 VGA compatible controller: AMD Radeon RX 580'', []] =
     (True, ''AMD Radeon RX 580'', 0)"
  by (simp add: amd_line vga_line model_amd trim_model trim_empty del: Contains.simps(2))

lemma gpu_scan_nvidia:
  "gpu_scan nvidiaRegex [''01:00.0 VGA compatible controller: AMD Radeon RX 580'', []] =
     (False, [], 0)"
  by (simp add: nvidia_line vga_line del: Contains.simps(2))

lemma bare_rest:
  "checkDocker amd_host_no_drm = False" "checkROCm amd_host_no_drm = False"
  "getSystemMemory amd_host_no_drm = 0" "getKernelVersion amd_host_no_drm = ''unknown''"
  by (simp_all add: checkDocker_def checkROCm_def getSystemMemory_def getKernelVersion_def Run_def
      amd_host_no_drm_def with_command_def bare_host_def)

text \<open>
  Claim C6 at a machine whose PCI listing shows an AMD card without a memory size and
  whose directory \<open>/sys/class/drm\<close> cannot be read: the fallback returns 0 at once, and
  the profile reports 0 MB of GPU memory, not the default of 8192 MB.
\<close>

theorem amd_fallback_unreadable_dir:
  "getGPUMemoryAlternative amd_host_no_drm = 0
 \<and> GetSystemInfo amd_host_no_drm =
     Inr \<lparr>HasDocker = False, HasROCm = False, HasNVIDIA = False, HasAMDGPU = True,
          GPUMemory = 0, SystemMemory = 0, GPUModel = ''AMD Radeon RX 580'', GPUType = ''amd'',
          KernelVersion = ''unknown''\<rparr>"
proof -
  have alt: "getGPUMemoryAlternative amd_host_no_drm = 0"
    by (simp add: getGPUMemoryAlternative_def amd_host_no_drm_def with_command_def bare_host_def)
  have amd: "checkAMDGPU amd_host_no_drm = (True, ''AMD Radeon RX 580'', 0)"
    by (simp add: checkAMDGPU_def lspci_amd split_amd gpu_scan_amd alt del: gpu_scan.simps)
  have nv: "checkNVIDIAGPU amd_host_no_drm = (False, [], 0)"
    by (simp add: checkNVIDIAGPU_def lspci_amd split_amd gpu_scan_nvidia del: gpu_scan.simps)
  show ?thesis
    by (simp add: alt GetSystemInfo_def amd nv bare_rest)
qed



text \<open>
  The other failure cases of the fallback do give 8192 MB: the directory is readable and
  no entry named \<open>card...\<close> without a hyphen has a memory file that can be read and
  parsed.
\<close>

lemma amd_fallback_no_vram_file: "getGPUMemoryAlternative amd_host_no_vram_file = 8192"
  by (simp add: getGPUMemoryAlternative_def amd_host_no_vram_file_def amd_host_no_drm_def
      with_command_def bare_host_def HasPrefix_def)


lemma card_loop_default:
  "\<forall>name \<in> set files.
      HasPrefix name ''card'' \<and> \<not> Contains name ''-'' \<longrightarrow>
      (case ReadFile h (''/sys/class/drm/'' @ name @ ''/device/mem_info_vram_total'') of
         None \<Rightarrow> True
       | Some data \<Rightarrow> \<not> snd (ParseInt (TrimSpace data))) \<Longrightarrow>
   card_loop h files = 8192"
  by (induction files) (auto split: option.splits prod.splits)

lemma getGPUMemoryAlternative_default:
  "ReadDir h ''/sys/class/drm'' = Some files \<Longrightarrow>
   \<forall>name \<in> set files.
      HasPrefix name ''card'' \<and> \<not> Contains name ''-'' \<longrightarrow>
      (case ReadFile h (''/sys/class/drm/'' @ name @ ''/device/mem_info_vram_total'') of
         None \<Rightarrow> True
       | Some data \<Rightarrow> \<not> snd (ParseInt (TrimSpace data))) \<Longrightarrow>
   getGPUMemoryAlternative h = 8192"
  by (simp add: getGPUMemoryAlternative_def card_loop_default)

lemma getGPUMemoryAlternative_unreadable:
  "ReadDir h ''/sys/class/drm'' = None \<Longrightarrow> getGPUMemoryAlternative h = 0"
  by (simp add: getGPUMemoryAlternative_def)

lemma GetSystemInfo_fields:
  "GetSystemInfo h =
     Inr \<lparr>HasDocker = checkDocker h, HasROCm = checkROCm h,
          HasNVIDIA = fst (checkNVIDIAGPU h), HasAMDGPU = fst (checkAMDGPU h),
          GPUMemory = (if fst (checkNVIDIAGPU h) then snd (snd (checkNVIDIAGPU h))
                       else if fst (checkAMDGPU h) then snd (snd (checkAMDGPU h)) else 0),
          SystemMemory = getSystemMemory h,
          GPUModel = (if fst (checkNVIDIAGPU h) then fst (snd (checkNVIDIAGPU h))
                      else if fst (checkAMDGPU h) then fst (snd (checkAMDGPU h)) else []),
          GPUType = (if fst (checkNVIDIAGPU h) then ''nvidia''
                     else if fst (checkAMDGPU h) then ''amd'' else ''unknown''),
          KernelVersion = getKernelVersion h\<rparr>"
  by (simp add: GetSystemInfo_def Let_def split: prod.splits)

lemma lspci_fails:
  "Output h ''lspci'' [''-v''] = None \<Longrightarrow>
   checkNVIDIAGPU h = (False, [], 0) \<and> checkAMDGPU h = (False, [], 0)"
  by (simp add: checkNVIDIAGPU_def checkAMDGPU_def)

lemma checkROCm_absent:
  "\<not> Stat h ''/opt/rocm/bin/rocminfo'' \<Longrightarrow> \<not> Stat h ''/usr/bin/rocminfo'' \<Longrightarrow>
   Output h ''lsmod'' [] = None \<Longrightarrow> \<not> checkROCm h"
  by (simp add: checkROCm_def)

lemma checkROCm_broken:
  "Stat h ''/opt/rocm/bin/rocminfo'' \<Longrightarrow> Output h ''/opt/rocm/bin/rocminfo'' [] = None \<Longrightarrow>
   \<not> checkROCm h"
  by (simp add: checkROCm_def Run_def)

lemma checkROCm_second_broken:
  "\<not> Stat h ''/opt/rocm/bin/rocminfo'' \<Longrightarrow> Stat h ''/usr/bin/rocminfo'' \<Longrightarrow>
   Output h ''/usr/bin/rocminfo'' [] = None \<Longrightarrow> \<not> checkROCm h"
  by (simp add: checkROCm_def Run_def)

lemma memtotal_loop_none:
  "\<forall>line \<in> set lines.
      HasPrefix line ''MemTotal:'' \<longrightarrow>
      length (Fields line) < 2 \<or> \<not> snd (Atoi (Fields line ! 1)) \<Longrightarrow>
   memtotal_loop lines = 0"
  by (induction lines) (auto simp: Let_def split: prod.splits)

lemma getNVIDIAMemoryFromSMI_default:
  "Output h ''nvidia-smi'' [''--query-gpu=memory.total'', ''--format=csv,noheader,nounits''] = None
   \<or> (\<exists>text. Output h ''nvidia-smi'' [''--query-gpu=memory.total'', ''--format=csv,noheader,nounits'']
                 = Some text \<and> \<not> snd (Atoi (TrimSpace text))) \<Longrightarrow>
   getNVIDIAMemoryFromSMI h = 8192"
  by (auto simp: getNVIDIAMemoryFromSMI_def split: prod.splits)

lemma checkNVIDIAGPU_no_size:
  "Output h ''lspci'' [''-v''] = Some out \<Longrightarrow>
   gpu_scan nvidiaRegex (Split out [CHR 0x0A]) = (True, m, 0) \<Longrightarrow>
   checkNVIDIAGPU h = (True, m, getNVIDIAMemoryFromSMI h)"
  by (simp add: checkNVIDIAGPU_def)

lemma checkNVIDIAGPU_absent:
  "Output h ''lspci'' [''-v''] = Some out \<Longrightarrow>
   \<not> fst (gpu_scan nvidiaRegex (Split out [CHR 0x0A])) \<Longrightarrow>
   \<not> fst (checkNVIDIAGPU h)"
  by (cases "gpu_scan nvidiaRegex (Split out [CHR 0x0A])") (simp add: checkNVIDIAGPU_def)

lemma checkAMDGPU_no_size:
  "Output h ''lspci'' [''-v''] = Some out \<Longrightarrow>
   gpu_scan amdRegex (Split out [CHR 0x0A]) = (True, m, 0) \<Longrightarrow>
   checkAMDGPU h = (True, m, getGPUMemoryAlternative h)"
  by (simp add: checkAMDGPU_def)

text \<open>
  Claim C9, as the code has it. \<open>GetSystemInfo\<close> returns a profile and no error on every
  host, and what fails degrades: no container runtime when the version command fails;
  no vendor, no model, 0 MB and type \<open>unknown\<close> when the PCI listing fails or shows no
  known card; no ROCm when no binary is installed and the module list fails, or when
  the installed binary does not run; 0 MB of system memory when the memory file cannot
  be opened or holds no \<open>MemTotal:\<close> line with a number; kernel \<open>unknown\<close> when the version
  command fails. The memory fallback for a card found without a size degrades to the
  default of 8192 MB instead: for NVIDIA when \<open>nvidia-smi\<close> fails or prints no number,
  for AMD when the DRM directory is read and no card entry has a memory file that can
  be read and parsed.
\<close>

theorem GetSystemInfo_never_fails:
  "\<exists>info. GetSystemInfo h = Inr info
     \<and> (Output h ''docker'' [''--version''] = None \<longrightarrow> \<not> HasDocker info)
     \<and> (Output h ''lspci'' [''-v''] = None \<longrightarrow>
          \<not> HasNVIDIA info \<and> \<not> HasAMDGPU info \<and> GPUMemory info = 0 \<and> GPUModel info = []
          \<and> GPUType info = ''unknown'')
     \<and> (\<not> HasNVIDIA info \<and> \<not> HasAMDGPU info \<longrightarrow>
          GPUMemory info = 0 \<and> GPUModel info = [] \<and> GPUType info = ''unknown'')
     \<and> (\<not> Stat h ''/opt/rocm/bin/rocminfo'' \<and> \<not> Stat h ''/usr/bin/rocminfo''
          \<and> Output h ''lsmod'' [] = None \<longrightarrow> \<not> HasROCm info)
     \<and> (Stat h ''/opt/rocm/bin/rocminfo'' \<and> Output h ''/opt/rocm/bin/rocminfo'' [] = None
          \<longrightarrow> \<not> HasROCm info)
     \<and> (\<not> Stat h ''/opt/rocm/bin/rocminfo'' \<and> Stat h ''/usr/bin/rocminfo''
          \<and> Output h ''/usr/bin/rocminfo'' [] = None \<longrightarrow> \<not> HasROCm info)
     \<and> (Open h ''/proc/meminfo'' = None \<longrightarrow> SystemMemory info = 0)
     \<and> (Open h ''/proc/meminfo'' = Some content
          \<and> (\<forall>line \<in> set (ScanLines [] content).
                HasPrefix line ''MemTotal:'' \<longrightarrow>
                length (Fields line) < 2 \<or> \<not> snd (Atoi (Fields line ! 1)))
          \<longrightarrow> SystemMemory info = 0)
     \<and> (Output h ''uname'' [''-r''] = None \<longrightarrow> KernelVersion info = ''unknown'')
     \<and> (Output h ''lspci'' [''-v''] = Some out
          \<and> gpu_scan nvidiaRegex (Split out [CHR 0x0A]) = (True, m, 0)
          \<and> (Output h ''nvidia-smi'' [''--query-gpu=memory.total'', ''--format=csv,noheader,nounits'']
                = None
              \<or> (\<exists>text. Output h ''nvidia-smi''
                            [''--query-gpu=memory.total'', ''--format=csv,noheader,nounits'']
                          = Some text \<and> \<not> snd (Atoi (TrimSpace text))))
          \<longrightarrow> GPUMemory info = 8192)
     \<and> (Output h ''lspci'' [''-v''] = Some out
          \<and> \<not> fst (gpu_scan nvidiaRegex (Split out [CHR 0x0A]))
          \<and> gpu_scan amdRegex (Split out [CHR 0x0A]) = (True, m, 0)
          \<and> ReadDir h ''/sys/class/drm'' = Some files
          \<and> (\<forall>name \<in> set files.
                HasPrefix name ''card'' \<and> \<not> Contains name ''-'' \<longrightarrow>
                (case ReadFile h (''/sys/class/drm/'' @ name @ ''/device/mem_info_vram_total'') of
                   None \<Rightarrow> True
                 | Some data \<Rightarrow> \<not> snd (ParseInt (TrimSpace data))))
          \<longrightarrow> GPUMemory info = 8192)"
proof (intro exI conjI impI)
  let ?info = "projr (GetSystemInfo h)"
  show "GetSystemInfo h = Inr ?info"
    by (simp add: GetSystemInfo_fields)
  show "\<not> HasDocker ?info" if "Output h ''docker'' [''--version''] = None"
    using that by (simp add: GetSystemInfo_fields checkDocker_def Run_def)
  show "\<not> HasNVIDIA ?info" "\<not> HasAMDGPU ?info" "GPUMemory ?info = 0" "GPUModel ?info = []"
    "GPUType ?info = ''unknown''"
    if "Output h ''lspci'' [''-v''] = None"
    using lspci_fails [OF that] by (simp_all add: GetSystemInfo_fields)
  show "GPUMemory ?info = 0" "GPUModel ?info = []" "GPUType ?info = ''unknown''"
    if "\<not> HasNVIDIA ?info \<and> \<not> HasAMDGPU ?info"
    using that by (simp_all add: GetSystemInfo_fields)
  show "\<not> HasROCm ?info"
    if "\<not> Stat h ''/opt/rocm/bin/rocminfo'' \<and> \<not> Stat h ''/usr/bin/rocminfo''
          \<and> Output h ''lsmod'' [] = None"
    using that checkROCm_absent [of h] by (simp add: GetSystemInfo_fields)
  show "\<not> HasROCm ?info"
    if "Stat h ''/opt/rocm/bin/rocminfo'' \<and> Output h ''/opt/rocm/bin/rocminfo'' [] = None"
    using that checkROCm_broken [of h] by (simp add: GetSystemInfo_fields)
  show "\<not> HasROCm ?info"
    if "\<not> Stat h ''/opt/rocm/bin/rocminfo'' \<and> Stat h ''/usr/bin/rocminfo''
          \<and> Output h ''/usr/bin/rocminfo'' [] = None"
    using that checkROCm_second_broken [of h] by (simp add: GetSystemInfo_fields)
  show "SystemMemory ?info = 0" if "Open h ''/proc/meminfo'' = None"
    using that by (simp add: GetSystemInfo_fields getSystemMemory_def)
  show "SystemMemory ?info = 0"
    if "Open h ''/proc/meminfo'' = Some content
          \<and> (\<forall>line \<in> set (ScanLines [] content).
                HasPrefix line ''MemTotal:'' \<longrightarrow>
                length (Fields line) < 2 \<or> \<not> snd (Atoi (Fields line ! 1)))"
    using that memtotal_loop_none [of "ScanLines [] content"]
    by (simp add: GetSystemInfo_fields getSystemMemory_def)
  show "KernelVersion ?info = ''unknown''" if "Output h ''uname'' [''-r''] = None"
    using that by (simp add: GetSystemInfo_fields getKernelVersion_def)
  show "GPUMemory ?info = 8192"
    if a: "Output h ''lspci'' [''-v''] = Some out
          \<and> gpu_scan nvidiaRegex (Split out [CHR 0x0A]) = (True, m, 0)
          \<and> (Output h ''nvidia-smi'' [''--query-gpu=memory.total'', ''--format=csv,noheader,nounits'']
                = None
              \<or> (\<exists>text. Output h ''nvidia-smi''
                            [''--query-gpu=memory.total'', ''--format=csv,noheader,nounits'']
                          = Some text \<and> \<not> snd (Atoi (TrimSpace text))))"
  proof -
    from a have o: "Output h ''lspci'' [''-v''] = Some out"
      and g: "gpu_scan nvidiaRegex (Split out [CHR 0x0A]) = (True, m, 0)"
      by blast+
    have c: "checkNVIDIAGPU h = (True, m, getNVIDIAMemoryFromSMI h)"
      using o g by (rule checkNVIDIAGPU_no_size)
    from a have "getNVIDIAMemoryFromSMI h = 8192"
      by (intro getNVIDIAMemoryFromSMI_default) blast
    with c show ?thesis by (simp add: GetSystemInfo_fields)
  qed
  show "GPUMemory ?info = 8192"
    if a: "Output h ''lspci'' [''-v''] = Some out
          \<and> \<not> fst (gpu_scan nvidiaRegex (Split out [CHR 0x0A]))
          \<and> gpu_scan amdRegex (Split out [CHR 0x0A]) = (True, m, 0)
          \<and> ReadDir h ''/sys/class/drm'' = Some files
          \<and> (\<forall>name \<in> set files.
                HasPrefix name ''card'' \<and> \<not> Contains name ''-'' \<longrightarrow>
                (case ReadFile h (''/sys/class/drm/'' @ name @ ''/device/mem_info_vram_total'') of
                   None \<Rightarrow> True
                 | Some data \<Rightarrow> \<not> snd (ParseInt (TrimSpace data))))"
  proof -
    from a have o: "Output h ''lspci'' [''-v''] = Some out"
      and gn: "\<not> fst (gpu_scan nvidiaRegex (Split out [CHR 0x0A]))"
      and ga: "gpu_scan amdRegex (Split out [CHR 0x0A]) = (True, m, 0)"
      and d: "ReadDir h ''/sys/class/drm'' = Some files"
      and f: "\<forall>name \<in> set files.
                HasPrefix name ''card'' \<and> \<not> Contains name ''-'' \<longrightarrow>
                (case ReadFile h (''/sys/class/drm/'' @ name @ ''/device/mem_info_vram_total'') of
                   None \<Rightarrow> True
                 | Some data \<Rightarrow> \<not> snd (ParseInt (TrimSpace data)))"
      by blast+
    have n: "\<not> fst (checkNVIDIAGPU h)"
      using o gn by (rule checkNVIDIAGPU_absent)
    have c: "checkAMDGPU h = (True, m, getGPUMemoryAlternative h)"
      using o ga by (rule checkAMDGPU_no_size)
    have "getGPUMemoryAlternative h = 8192"
      using d f by (rule getGPUMemoryAlternative_default)
    with n c show ?thesis by (simp add: GetSystemInfo_fields)
  qed
qed

lemma lspci_nv:
  "Output nvidia_host_no_smi ''lspci'' [''-v''] =
     Some ''01:00.0 VGA compatible controller: NVIDIA GeForce RTX 3070\<newline>''"
  by (simp add: nvidia_host_no_smi_def with_command_def)

lemma smi_nv:
  "Output nvidia_host_no_smi ''nvidia-smi''
     [''--query-gpu=memory.total'', ''--format=csv,noheader,nounits''] = None"
  by (simp add: nvidia_host_no_smi_def with_command_def bare_host_def)

lemma split_nv:
  "Split ''01:00.0 VGA compatible controller: NVIDIA GeForce RTX 3070\<newline>'' [CHR 0x0A] =
     [''01:00.0 VGA compatible controller: NVIDIA GeForce RTX 3070'', []]"
  by (simp add: Split_def HasPrefix_def)

lemma nv_line_nvidia: "nvidiaRegex ''01:00.0 VGA compatible controller: NVIDIA GeForce RTX 3070''"
  by (simp add: nvidiaRegex_def to_lower_def)

lemma nv_line_amd: "\<not> amdRegex ''01:00.0 VGA compatible controller: NVIDIA GeForce RTX 3070''"
  by (simp add: amdRegex_def to_lower_def)

lemma nv_line_vga:
  "Contains ''01:00.0 VGA compatible controller: NVIDIA GeForce RTX 3070'' ''VGA compatible controller''"
  by (simp add: HasPrefix_def)

lemma nv_model:
  "Split ''01:00.0 VGA compatible controller: NVIDIA GeForce RTX 3070'' '': '' =
     [''01:00.0 VGA compatible controller'', ''NVIDIA GeForce RTX 3070'']"
  by (simp add: Split_def HasPrefix_def)

lemma nv_trim: "TrimSpace ''NVIDIA GeForce RTX 3070'' = ''NVIDIA GeForce RTX 3070''"
  by (simp add: TrimSpace_def ends_space_def space_width_def)

lemma gpu_scan_nv:
  "gpu_scan nvidiaRegex [''01:00.0 VGA compatible controller: NVIDIA GeForce RTX 3070'', []] =
     (True, ''NVIDIA GeForce RTX 3070'', 0)"
  by (simp add: nv_line_nvidia nv_line_vga nv_model nv_trim trim_empty del: Contains.simps(2))

lemma gpu_scan_nv_amd:
  "gpu_scan amdRegex [''01:00.0 VGA compatible controller: NVIDIA GeForce RTX 3070'', []] =
     (False, [], 0)"
  by (simp add: nv_line_amd nv_line_vga del: Contains.simps(2))

lemma nv_rest:
  "checkDocker nvidia_host_no_smi = False" "checkROCm nvidia_host_no_smi = False"
  "getSystemMemory nvidia_host_no_smi = 0" "getKernelVersion nvidia_host_no_smi = ''unknown''"
  by (simp_all add: checkDocker_def checkROCm_def getSystemMemory_def getKernelVersion_def Run_def
      nvidia_host_no_smi_def with_command_def bare_host_def)

text \<open>
  Claim C9 as stated fails at the memory fallback: the PCI listing shows an NVIDIA card
  without a memory size and \<open>nvidia-smi\<close> cannot be run; the failing query degrades to 8192
  MB, which is none of false, zero and \<open>unknown\<close>.
\<close>

theorem nvidia_smi_failure_counterexample:
  "Output nvidia_host_no_smi ''nvidia-smi''
     [''--query-gpu=memory.total'', ''--format=csv,noheader,nounits''] = None
 \<and> GetSystemInfo nvidia_host_no_smi =
     Inr \<lparr>HasDocker = False, HasROCm = False, HasNVIDIA = True, HasAMDGPU = False,
          GPUMemory = 8192, SystemMemory = 0, GPUModel = ''NVIDIA GeForce RTX 3070'',
          GPUType = ''nvidia'', KernelVersion = ''unknown''\<rparr>"
proof -
  have smi: "getNVIDIAMemoryFromSMI nvidia_host_no_smi = 8192"
    by (simp add: getNVIDIAMemoryFromSMI_def smi_nv)
  have nv: "checkNVIDIAGPU nvidia_host_no_smi = (True, ''NVIDIA GeForce RTX 3070'', 8192)"
    by (simp add: checkNVIDIAGPU_def lspci_nv split_nv gpu_scan_nv smi del: gpu_scan.simps)
  have amd: "checkAMDGPU nvidia_host_no_smi = (False, [], 0)"
    by (simp add: checkAMDGPU_def lspci_nv split_nv gpu_scan_nv_amd del: gpu_scan.simps)
  show ?thesis
    by (simp add: smi_nv GetSystemInfo_def amd nv nv_rest)
qed

theorem GetSystemInfo_never_fails_witness:
  "GetSystemInfo bare_host =
     Inr \<lparr>HasDocker = False, HasROCm = False, HasNVIDIA = False, HasAMDGPU = False,
          GPUMemory = 0, SystemMemory = 0, GPUModel = [], GPUType = ''unknown'',
          KernelVersion = ''unknown''\<rparr>
 \<and> GPUMemory (projr (GetSystemInfo nvidia_host_no_smi)) = 8192"
proof -
  from GetSystemInfo_never_fails [of bare_host]
  obtain info where i: "GetSystemInfo bare_host = Inr info"
    and f: "\<not> HasDocker info" "\<not> HasNVIDIA info" "\<not> HasAMDGPU info" "GPUMemory info = 0"
      "GPUModel info = []" "GPUType info = ''unknown''" "\<not> HasROCm info"
      "SystemMemory info = 0" "KernelVersion info = ''unknown''"
    by (auto simp: bare_host_def)
  have "info = \<lparr>HasDocker = False, HasROCm = False, HasNVIDIA = False, HasAMDGPU = False,
          GPUMemory = 0, SystemMemory = 0, GPUModel = [], GPUType = ''unknown'',
          KernelVersion = ''unknown''\<rparr>"
    using f by (cases info) simp
  with i have 1: "GetSystemInfo bare_host =
     Inr \<lparr>HasDocker = False, HasROCm = False, HasNVIDIA = False, HasAMDGPU = False,
          GPUMemory = 0, SystemMemory = 0, GPUModel = [], GPUType = ''unknown'',
          KernelVersion = ''unknown''\<rparr>" by simp
  have g: "gpu_scan nvidiaRegex
             (Split ''01:00.0 VGA compatible controller: NVIDIA GeForce RTX 3070\<newline>'' [CHR 0x0A])
           = (True, ''NVIDIA GeForce RTX 3070'', 0)"
    by (simp only: split_nv gpu_scan_nv)
  from GetSystemInfo_never_fails
         [of nvidia_host_no_smi _ "''01:00.0 VGA compatible controller: NVIDIA GeForce RTX 3070\<newline>''"
             "''NVIDIA GeForce RTX 3070''"]
  obtain info' where "GetSystemInfo nvidia_host_no_smi = Inr info'" and "GPUMemory info' = 8192"
    using lspci_nv smi_nv g by auto
  then have 2: "GPUMemory (projr (GetSystemInfo nvidia_host_no_smi)) = 8192" by simp
  from 1 2 show ?thesis ..
qed

end
